theory Spec2Isabelle
  imports Main "HOL-Library.Word" "HOL-Library.Sublist"
begin

section \<open>Python values and exceptions\<close>

text \<open>
  A Python \<open>bytes\<close> object is a list of 8-bit words. A Python \<open>str\<close> that is encoded or
  decoded (the API key) is the list of its code points. Texts that the program only
  concatenates (prompts, labels, messages) are Isabelle strings. A path is the list of its
  components, so that \<open>Path.home() / name\<close> appends one component.
\<close>

type_synonym byte = "8 word"
type_synonym bytes = "byte list"
type_synonym pystr = "nat list"
type_synonym path = "string list"

text \<open>
  An exception is its class and the text \<open>str(e)\<close> yields. The classes are the ones that
  the program, the interpreter and the libraries it calls can raise on the paths modelled.
\<close>

datatype exn_class =
    OSError | ValueError | UnicodeEncodeError | UnicodeDecodeError | InvalidToken
  | TypeError | KeyError | IndexError | OverflowError | RequestException
  | JSONDecodeError | Exception

datatype pyexn = PyExn (cls: exn_class) (str_exn: string)

text \<open>\<open>except ValueError\<close> catches the class and its subclasses.\<close>

fun is_ValueError :: "exn_class \<Rightarrow> bool" where
  "is_ValueError ValueError = True"
| "is_ValueError UnicodeEncodeError = True"
| "is_ValueError UnicodeDecodeError = True"
| "is_ValueError JSONDecodeError = True"
| "is_ValueError _ = False"

section \<open>\<open>str.encode()\<close> and \<open>bytes.decode()\<close>: strict UTF-8\<close>

definition is_surrogate :: "nat \<Rightarrow> bool" where
  "is_surrogate c = (0xD800 \<le> c \<and> c \<le> 0xDFFF)"

text \<open>One code point; \<open>None\<close> for a surrogate (and for a number that is no code point).\<close>

definition encode_cp :: "nat \<Rightarrow> bytes option" where
  "encode_cp c =
     (if c < 0x80 then Some [of_nat c]
      else if c < 0x800 then Some [of_nat (0xC0 + c div 64), of_nat (0x80 + c mod 64)]
      else if c < 0x10000 then
        (if is_surrogate c then None
         else Some [of_nat (0xE0 + c div 4096), of_nat (0x80 + (c div 64) mod 64),
                    of_nat (0x80 + c mod 64)])
      else if c < 0x110000 then
        Some [of_nat (0xF0 + c div 262144), of_nat (0x80 + (c div 4096) mod 64),
              of_nat (0x80 + (c div 64) mod 64), of_nat (0x80 + c mod 64)]
      else None)"

fun str_encode :: "pystr \<Rightarrow> pyexn + bytes" where
  "str_encode [] = Inr []"
| "str_encode (c # cs) =
     (case encode_cp c of
        None \<Rightarrow> Inl (PyExn UnicodeEncodeError ''surrogates not allowed'')
      | Some bs \<Rightarrow>
          (case str_encode cs of Inl e \<Rightarrow> Inl e | Inr r \<Rightarrow> Inr (bs @ r)))"

definition is_cont :: "byte \<Rightarrow> bool" where
  "is_cont b = (0x80 \<le> unat b \<and> unat b \<le> 0xBF)"

definition cont_bits :: "byte \<Rightarrow> nat" where
  "cont_bits b = unat b - 0x80"

definition decode_error :: "pyexn + pystr" where
  "decode_error = Inl (PyExn UnicodeDecodeError ''invalid utf-8 data'')"

definition cons_cp :: "nat \<Rightarrow> pyexn + pystr \<Rightarrow> pyexn + pystr" where
  "cons_cp c r = (case r of Inl e \<Rightarrow> Inl e | Inr cs \<Rightarrow> Inr (c # cs))"

fun bytes_decode :: "bytes \<Rightarrow> pyexn + pystr" where
  "bytes_decode [] = Inr []"
| "bytes_decode (b0 # bs) =
     (if unat b0 < 0x80 then cons_cp (unat b0) (bytes_decode bs)
      else if 0xC2 \<le> unat b0 \<and> unat b0 \<le> 0xDF then
        (case bs of
           b1 # r \<Rightarrow>
             if is_cont b1
             then cons_cp ((unat b0 - 0xC0) * 64 + cont_bits b1) (bytes_decode r)
             else decode_error
         | _ \<Rightarrow> decode_error)
      else if 0xE0 \<le> unat b0 \<and> unat b0 \<le> 0xEF then
        (case bs of
           b1 # b2 # r \<Rightarrow>
             if is_cont b1 \<and> is_cont b2
                \<and> 0x800 \<le> (unat b0 - 0xE0) * 4096 + cont_bits b1 * 64 + cont_bits b2
                \<and> \<not> is_surrogate ((unat b0 - 0xE0) * 4096 + cont_bits b1 * 64 + cont_bits b2)
             then cons_cp ((unat b0 - 0xE0) * 4096 + cont_bits b1 * 64 + cont_bits b2)
                    (bytes_decode r)
             else decode_error
         | _ \<Rightarrow> decode_error)
      else if 0xF0 \<le> unat b0 \<and> unat b0 \<le> 0xF4 then
        (case bs of
           b1 # b2 # b3 # r \<Rightarrow>
             if is_cont b1 \<and> is_cont b2 \<and> is_cont b3
                \<and> 0x10000 \<le> (unat b0 - 0xF0) * 262144 + cont_bits b1 * 4096
                                + cont_bits b2 * 64 + cont_bits b3
                \<and> (unat b0 - 0xF0) * 262144 + cont_bits b1 * 4096
                    + cont_bits b2 * 64 + cont_bits b3 < 0x110000
             then cons_cp ((unat b0 - 0xF0) * 262144 + cont_bits b1 * 4096
                           + cont_bits b2 * 64 + cont_bits b3) (bytes_decode r)
             else decode_error
         | _ \<Rightarrow> decode_error)
      else decode_error)"


section \<open>The file system\<close>

text \<open>
  The disk is the home directory, the content of every path that is a file, and what the
  operating system refuses: \<open>refuses fs op p = Some m\<close> says that \<open>op\<close> on \<open>p\<close> fails
  with an \<open>OSError\<close> whose text is \<open>m\<close>.
\<close>

datatype fs_op = OpRead | OpWrite | OpUnlink

record filesystem =
  home :: path
  files :: "path \<Rightarrow> bytes option"
  refuses :: "fs_op \<Rightarrow> path \<Rightarrow> string option"

text \<open>Whether the path is a file on the disk.\<close>

definition path_exists :: "filesystem \<Rightarrow> path \<Rightarrow> bool" where
  "path_exists fs p = (files fs p \<noteq> None)"

text \<open>
  \<open>p.exists()\<close> asks the operating system for the status of the path, answers
  \<open>False\<close> when there is no such file, and raises every other \<open>OSError\<close> of that
  call again (\<open>PermissionError\<close> in a home directory that may not be searched). A path
  that cannot be reached is a path on which the operating system refuses to read, to write
  and to unlink with one and the same error; the status call fails with that error then,
  and in no other case.
\<close>

definition stat_error :: "filesystem \<Rightarrow> path \<Rightarrow> string option" where
  "stat_error fs p =
     (case refuses fs OpRead p of
        None \<Rightarrow> None
      | Some m \<Rightarrow>
          if refuses fs OpWrite p = Some m \<and> refuses fs OpUnlink p = Some m
          then Some m else None)"

definition Path_exists :: "filesystem \<Rightarrow> path \<Rightarrow> pyexn + bool" where
  "Path_exists fs p =
     (case stat_error fs p of
        Some m \<Rightarrow> Inl (PyExn OSError m)
      | None \<Rightarrow> Inr (path_exists fs p))"

text \<open>\<open>with open(p, 'rb') as f: f.read()\<close>\<close>

definition read_bytes :: "filesystem \<Rightarrow> path \<Rightarrow> pyexn + bytes" where
  "read_bytes fs p =
     (case refuses fs OpRead p of
        Some m \<Rightarrow> Inl (PyExn OSError m)
      | None \<Rightarrow>
          (case files fs p of
             None \<Rightarrow> Inl (PyExn OSError ''No such file or directory'')
           | Some b \<Rightarrow> Inr b))"

text \<open>\<open>with open(p, 'wb') as f: f.write(d)\<close>: the file is created or replaced in full.\<close>

definition write_bytes :: "filesystem \<Rightarrow> path \<Rightarrow> bytes \<Rightarrow> (pyexn + unit) \<times> filesystem" where
  "write_bytes fs p d =
     (case refuses fs OpWrite p of
        Some m \<Rightarrow> (Inl (PyExn OSError m), fs)
      | None \<Rightarrow> (Inr (), fs\<lparr>files := (files fs)(p \<mapsto> d)\<rparr>))"

text \<open>\<open>p.unlink()\<close>\<close>

definition unlink :: "filesystem \<Rightarrow> path \<Rightarrow> (pyexn + unit) \<times> filesystem" where
  "unlink fs p =
     (case refuses fs OpUnlink p of
        Some m \<Rightarrow> (Inl (PyExn OSError m), fs)
      | None \<Rightarrow>
          (case files fs p of
             None \<Rightarrow> (Inl (PyExn OSError ''No such file or directory''), fs)
           | Some _ \<Rightarrow> (Inr (), fs\<lparr>files := (files fs)(p := None)\<rparr>)))"

section \<open>The cipher library\<close>

text \<open>
  \<open>cryptography.fernet\<close> is not part of the repository; the program is modelled over
  its interface. \<open>generate_key r\<close> is \<open>Fernet.generate_key()\<close> on the random bytes
  \<open>r\<close>; \<open>new_fernet k\<close> is the constructor \<open>Fernet(k)\<close>, which raises on a key it
  does not accept; \<open>encrypt k r d\<close> is \<open>Fernet(k).encrypt(d)\<close> with the random bytes and
  the clock reading \<open>r\<close> it draws; \<open>decrypt k t\<close> is \<open>Fernet(k).decrypt(t)\<close>.
\<close>

record cipher =
  generate_key :: "bytes \<Rightarrow> bytes"
  new_fernet :: "bytes \<Rightarrow> pyexn option"
  encrypt :: "bytes \<Rightarrow> bytes \<Rightarrow> bytes \<Rightarrow> bytes"
  decrypt :: "bytes \<Rightarrow> bytes \<Rightarrow> pyexn + bytes"

text \<open>The contract of the library that the round trip rests on.\<close>

definition cipher_round_trip :: "cipher \<Rightarrow> bytes \<Rightarrow> bool" where
  "cipher_round_trip c k = (\<forall>r d. decrypt c k (encrypt c k r d) = Inr d)"

text \<open>
  A token of the library is text: the URL-safe base64 encoding of the bytes it has sealed
  (version, time, IV, ciphertext and HMAC). \<open>Fernet.decrypt\<close> first decodes the text
  with \<open>base64.urlsafe_b64decode\<close> and raises \<open>InvalidToken\<close> when that fails, then
  checks and opens the bytes. The two functions of the standard library follow.
\<close>

text \<open>
  The character for a value below 64 in the URL-safe alphabet: \<open>A\<close> to \<open>Z\<close>, \<open>a\<close>
  to \<open>z\<close>, \<open>0\<close> to \<open>9\<close>, \<open>-\<close> and \<open>_\<close>.
\<close>

definition b64_char :: "nat \<Rightarrow> byte" where
  "b64_char n =
     of_nat (if n < 26 then 65 + n
             else if n < 52 then 71 + n
             else if n < 62 then n - 4
             else if n = 62 then 45
             else 95)"

text \<open>\<open>base64.urlsafe_b64encode\<close>: three bytes give four characters; the rest is padded.\<close>

fun urlsafe_b64encode :: "bytes \<Rightarrow> bytes" where
  "urlsafe_b64encode [] = []"
| "urlsafe_b64encode [x] =
     [b64_char (unat x div 4), b64_char (unat x mod 4 * 16), 0x3D, 0x3D]"
| "urlsafe_b64encode [x, y] =
     [b64_char (unat x div 4), b64_char (unat x mod 4 * 16 + unat y div 16),
      b64_char (unat y mod 16 * 4), 0x3D]"
| "urlsafe_b64encode (x # y # z # rest) =
     [b64_char (unat x div 4), b64_char (unat x mod 4 * 16 + unat y div 16),
      b64_char (unat y mod 16 * 4 + unat z div 64), b64_char (unat z mod 64)]
     @ urlsafe_b64encode rest"

text \<open>
  The value of a character of the alphabet: \<open>urlsafe_b64decode\<close> takes \<open>-\<close> for
  \<open>+\<close> and \<open>_\<close> for \<open>/\<close>, and the standard characters stay valid.
\<close>

definition b64_value :: "byte \<Rightarrow> nat option" where
  "b64_value ch =
     (if 65 \<le> unat ch \<and> unat ch \<le> 90 then Some (unat ch - 65)
      else if 97 \<le> unat ch \<and> unat ch \<le> 122 then Some (unat ch - 71)
      else if 48 \<le> unat ch \<and> unat ch \<le> 57 then Some (unat ch + 4)
      else if unat ch = 45 \<or> unat ch = 43 then Some 62
      else if unat ch = 95 \<or> unat ch = 47 then Some 63
      else None)"

definition emit :: "nat \<Rightarrow> pyexn + bytes \<Rightarrow> pyexn + bytes" where
  "emit n r = (case r of Inl e \<Rightarrow> Inl e | Inr bs \<Rightarrow> Inr (of_nat n # bs))"

text \<open>
  The loop of \<open>binascii.a2b_base64\<close> as \<open>urlsafe_b64decode\<close> calls it (not strict), over
  the position in the group of four, the bits left from the last character and the count
  of padding characters. A character outside the alphabet is skipped. Padding that
  completes the group ends the decoding, and the bits left over are dropped. Input that
  ends inside a group raises \<open>binascii.Error\<close>, a \<open>ValueError\<close>.
\<close>

fun a2b_base64 :: "bytes \<Rightarrow> nat \<Rightarrow> nat \<Rightarrow> nat \<Rightarrow> pyexn + bytes" where
  "a2b_base64 [] quad_pos leftchar pads =
     (if quad_pos = 0 then Inr [] else Inl (PyExn ValueError ''Incorrect padding''))"
| "a2b_base64 (ch # cs) quad_pos leftchar pads =
     (if ch = 0x3D then
        (if 2 \<le> quad_pos \<and> 4 \<le> quad_pos + (pads + 1) then Inr []
         else a2b_base64 cs quad_pos leftchar (if 2 \<le> quad_pos then pads + 1 else pads))
      else
        (case b64_value ch of
           None \<Rightarrow> a2b_base64 cs quad_pos leftchar pads
         | Some v \<Rightarrow>
             if quad_pos = 0 then a2b_base64 cs 1 v 0
             else if quad_pos = 1 then
               emit (leftchar * 4 + v div 16) (a2b_base64 cs 2 (v mod 16) 0)
             else if quad_pos = 2 then
               emit (leftchar * 16 + v div 4) (a2b_base64 cs 3 (v mod 4) 0)
             else emit (leftchar * 64 + v) (a2b_base64 cs 0 0 0)))"

definition urlsafe_b64decode :: "bytes \<Rightarrow> pyexn + bytes" where
  "urlsafe_b64decode t = a2b_base64 t 0 0 0"

text \<open>
  The library over a cipher \<open>inner\<close> that seals and opens bytes: the token is the
  encoding of the sealed bytes, and \<open>decrypt\<close> decodes the token before it opens it.
\<close>

definition fernet_over :: "cipher \<Rightarrow> cipher" where
  "fernet_over inner =
     \<lparr>generate_key = generate_key inner,
      new_fernet = new_fernet inner,
      encrypt = (\<lambda>k r d. urlsafe_b64encode (encrypt inner k r d)),
      decrypt = (\<lambda>k t. case urlsafe_b64decode t of
                          Inl e \<Rightarrow> Inl (PyExn InvalidToken [])
                        | Inr bs \<Rightarrow> decrypt inner k bs)\<rparr>"

section \<open>\<open>class APIKeyManager\<close>\<close>

text \<open>
  The object holds \<open>key_file\<close> and \<open>key_encryption_key\<close>; its third attribute
  \<open>fernet\<close> is \<open>Fernet(key_encryption_key)\<close>. Every method returns its result (or the
  exception it raises), the object and the disk.
\<close>

record APIKeyManager =
  key_file :: path
  key_encryption_key :: bytes

definition key_path_of :: "filesystem \<Rightarrow> path" where
  "key_path_of fs = home fs @ [''.calculator_key'']"

definition get_or_create_encryption_key ::
  "cipher \<Rightarrow> bytes \<Rightarrow> filesystem \<Rightarrow> (pyexn + bytes) \<times> filesystem" where
  "get_or_create_encryption_key c rnd fs =
     (let key_path = key_path_of fs in
      case Path_exists fs key_path of
        Inl e \<Rightarrow> (Inl e, fs)
      | Inr there \<Rightarrow>
          if \<not> there then
            (let key = generate_key c rnd in
             case write_bytes fs key_path key of
               (Inl e, fs') \<Rightarrow> (Inl e, fs')
             | (Inr _, fs') \<Rightarrow> (Inr key, fs'))
          else (read_bytes fs key_path, fs))"

definition APIKeyManager_init ::
  "cipher \<Rightarrow> bytes \<Rightarrow> filesystem \<Rightarrow> (pyexn + APIKeyManager) \<times> filesystem" where
  "APIKeyManager_init c rnd fs =
     (let kf = home fs @ [''.calculator_api_key''] in
      case get_or_create_encryption_key c rnd fs of
        (Inl e, fs') \<Rightarrow> (Inl e, fs')
      | (Inr k, fs') \<Rightarrow>
          (case new_fernet c k of
             Some e \<Rightarrow> (Inl e, fs')
           | None \<Rightarrow> (Inr \<lparr>key_file = kf, key_encryption_key = k\<rparr>, fs')))"

definition save_api_key ::
  "cipher \<Rightarrow> bytes \<Rightarrow> pystr \<Rightarrow> APIKeyManager \<times> filesystem
     \<Rightarrow> (pyexn + unit) \<times> APIKeyManager \<times> filesystem" where
  "save_api_key c rnd api_key st =
     (case st of (self, fs) \<Rightarrow>
        (case str_encode api_key of
           Inl e \<Rightarrow> (Inl e, self, fs)
         | Inr data \<Rightarrow>
             (let encrypted_key = encrypt c (key_encryption_key self) rnd data in
              case write_bytes fs (key_file self) encrypted_key of
                (r, fs') \<Rightarrow> (r, self, fs'))))"

text \<open>The body of the \<open>try\<close> block of \<open>load_api_key\<close>.\<close>

definition load_api_key_try :: "cipher \<Rightarrow> APIKeyManager \<Rightarrow> filesystem \<Rightarrow> pyexn + pystr option" where
  "load_api_key_try c self fs =
     (case Path_exists fs (key_file self) of
        Inl e \<Rightarrow> Inl e
      | Inr there \<Rightarrow>
          if there then
            (case read_bytes fs (key_file self) of
               Inl e \<Rightarrow> Inl e
             | Inr encrypted_key \<Rightarrow>
                 (case decrypt c (key_encryption_key self) encrypted_key of
                    Inl e \<Rightarrow> Inl e
                  | Inr data \<Rightarrow>
                      (case bytes_decode data of
                         Inl e \<Rightarrow> Inl e
                       | Inr s \<Rightarrow> Inr (Some s))))
          else Inr None)"

text \<open>\<open>except Exception: return None\<close>\<close>

definition load_api_key ::
  "cipher \<Rightarrow> APIKeyManager \<times> filesystem
     \<Rightarrow> (pyexn + pystr option) \<times> APIKeyManager \<times> filesystem" where
  "load_api_key c st =
     (case st of (self, fs) \<Rightarrow>
        (case load_api_key_try c self fs of
           Inl e \<Rightarrow> (Inr None, self, fs)
         | Inr v \<Rightarrow> (Inr v, self, fs)))"

definition delete_api_key ::
  "APIKeyManager \<times> filesystem \<Rightarrow> (pyexn + unit) \<times> APIKeyManager \<times> filesystem" where
  "delete_api_key st =
     (case st of (self, fs) \<Rightarrow>
        (case Path_exists fs (key_file self) of
           Inl e \<Rightarrow> (Inl e, self, fs)
         | Inr there \<Rightarrow>
             if there then
               (case unlink fs (key_file self) of (r, fs') \<Rightarrow> (r, self, fs'))
             else (Inr (), self, fs)))"


section \<open>Floats, JSON values and the HTTP exchange\<close>

text \<open>
  Floating-point arithmetic is not modelled: a float is a value of a type \<open>'f\<close>, and the
  program is modelled over the five operations it applies to floats. \<open>float_of_str s\<close>
  is \<open>float(s)\<close> on a string, \<open>Inl m\<close> being \<open>ValueError(m)\<close>; \<open>float_of_int n\<close> is
  \<open>float(n)\<close> on an integer, \<open>Inl m\<close> being \<open>OverflowError(m)\<close>; \<open>is_zero x\<close> is
  \<open>x == 0\<close>; \<open>str_float x\<close> is what \<open>f"{x}"\<close> prints and \<open>fmt_2f x\<close> what
  \<open>f"{x:.2f}"\<close> prints.
\<close>

record 'f float_ops =
  float_of_str :: "string \<Rightarrow> string + 'f"
  float_of_int :: "int \<Rightarrow> string + 'f"
  is_zero :: "'f \<Rightarrow> bool"
  str_float :: "'f \<Rightarrow> string"
  fmt_2f :: "'f \<Rightarrow> string"

text \<open>What \<open>response.json()\<close> returns. A decoded object has one entry for each key.\<close>

datatype 'f json =
    JNull | JBool bool | JInt int | JFloat 'f | JStr string
  | JArr "'f json list" | JObj "(string \<times> 'f json) list"

fun type_name :: "'f json \<Rightarrow> string" where
  "type_name JNull = ''NoneType''"
| "type_name (JBool _) = ''bool''"
| "type_name (JInt _) = ''int''"
| "type_name (JFloat _) = ''float''"
| "type_name (JStr _) = ''str''"
| "type_name (JArr _) = ''list''"
| "type_name (JObj _) = ''dict''"

definition quoted :: "string \<Rightarrow> string" where
  "quoted s = [CHR 0x27] @ s @ [CHR 0x27]"

definition not_subscriptable :: "'f json \<Rightarrow> pyexn" where
  "not_subscriptable v =
     PyExn TypeError (quoted (type_name v) @ '' object is not subscriptable'')"

text \<open>\<open>v[k]\<close> for a string \<open>k\<close>\<close>

fun getitem_str :: "'f json \<Rightarrow> string \<Rightarrow> pyexn + 'f json" where
  "getitem_str (JObj kvs) k =
     (case map_of kvs k of None \<Rightarrow> Inl (PyExn KeyError (quoted k)) | Some v \<Rightarrow> Inr v)"
| "getitem_str (JArr xs) k =
     Inl (PyExn TypeError ''list indices must be integers or slices, not str'')"
| "getitem_str (JStr s) k = Inl (PyExn TypeError ''string indices must be integers'')"
| "getitem_str v k = Inl (not_subscriptable v)"

text \<open>\<open>v[0]\<close>\<close>

fun getitem_0 :: "'f json \<Rightarrow> pyexn + 'f json" where
  "getitem_0 (JArr []) = Inl (PyExn IndexError ''list index out of range'')"
| "getitem_0 (JArr (x # xs)) = Inr x"
| "getitem_0 (JStr []) = Inl (PyExn IndexError ''string index out of range'')"
| "getitem_0 (JStr (ch # s)) = Inr (JStr [ch])"
| "getitem_0 (JObj kvs) = Inl (PyExn KeyError ''0'')"
| "getitem_0 v = Inl (not_subscriptable v)"

text \<open>\<open>float(v)\<close>\<close>

fun py_float :: "'f float_ops \<Rightarrow> 'f json \<Rightarrow> pyexn + 'f" where
  "py_float F (JStr s) =
     (case float_of_str F s of Inl m \<Rightarrow> Inl (PyExn ValueError m) | Inr x \<Rightarrow> Inr x)"
| "py_float F (JFloat x) = Inr x"
| "py_float F (JInt n) =
     (case float_of_int F n of Inl m \<Rightarrow> Inl (PyExn OverflowError m) | Inr x \<Rightarrow> Inr x)"
| "py_float F (JBool b) =
     (case float_of_int F (if b then 1 else 0) of
        Inl m \<Rightarrow> Inl (PyExn OverflowError m) | Inr x \<Rightarrow> Inr x)"
| "py_float F v =
     Inl (PyExn TypeError
       (''float() argument must be a string or a real number, not '' @ quoted (type_name v)))"

definition exn_bind :: "pyexn + 'a \<Rightarrow> ('a \<Rightarrow> pyexn + 'b) \<Rightarrow> pyexn + 'b" where
  "exn_bind r f = (case r of Inl e \<Rightarrow> Inl e | Inr v \<Rightarrow> f v)"

text \<open>
  \<open>float(result['candidates'][0]['content']['parts'][0]['text'])\<close>: the subscripts
  first, which give the first text field of the first candidate, then \<open>float\<close>.
\<close>

definition first_text :: "'f json \<Rightarrow> pyexn + 'f json" where
  "first_text result =
     exn_bind (getitem_str result ''candidates'') (\<lambda>a.
     exn_bind (getitem_0 a) (\<lambda>b.
     exn_bind (getitem_str b ''content'') (\<lambda>c.
     exn_bind (getitem_str c ''parts'') (\<lambda>d.
     exn_bind (getitem_0 d) (\<lambda>e.
     getitem_str e ''text'')))))"

definition extract_result :: "'f float_ops \<Rightarrow> 'f json \<Rightarrow> pyexn + 'f" where
  "extract_result F result = exn_bind (first_text result) (py_float F)"

text \<open>\<open>str(n)\<close> for an integer\<close>

definition digit_char :: "nat \<Rightarrow> char" where
  "digit_char d = ''0123456789'' ! d"

fun str_nat :: "nat \<Rightarrow> string" where
  "str_nat n =
     (if n < 10 then [digit_char n]
      else str_nat (n div 10) @ [digit_char (n mod 10)])"

definition str_int :: "int \<Rightarrow> string" where
  "str_int i = (if i < 0 then ''-'' @ str_nat (nat (- i)) else str_nat (nat i))"

text \<open>
  The request that \<open>requests.post\<close> is called with: the URL, the two headers and the one
  text of the JSON body. The response: its status and what \<open>response.json()\<close> gives.
  The network and the remote service are a function \<open>post\<close> from the request to the
  response, or to the exception that \<open>requests.post\<close> raises.
\<close>

record request =
  url :: string
  content_type :: string
  x_goog_api_key :: pystr
  body_text :: string

record 'f response =
  status_code :: int
  json_body :: "pyexn + 'f json"

section \<open>\<open>class CalculatorAPI\<close>\<close>

record CalculatorAPI =
  api_key :: pystr
  base_url :: string

definition CalculatorAPI_init :: "pystr \<Rightarrow> CalculatorAPI" where
  "CalculatorAPI_init k =
     \<lparr>api_key = k,
      base_url = ''https://generativelanguage.googleapis.com/v1beta/models/gemini-pro:generateContent''\<rparr>"

definition prompt :: "'f float_ops \<Rightarrow> 'f \<Rightarrow> 'f \<Rightarrow> string \<Rightarrow> string" where
  "prompt F num1 num2 operation =
     ''Calculate '' @ str_float F num1 @ '' '' @ operation @ '' '' @ str_float F num2
       @ '' and return only the numerical result''"

definition build_request :: "'f float_ops \<Rightarrow> CalculatorAPI \<Rightarrow> 'f \<Rightarrow> 'f \<Rightarrow> string \<Rightarrow> request" where
  "build_request F self num1 num2 operation =
     \<lparr>url = base_url self, content_type = ''application/json'',
      x_goog_api_key = api_key self, body_text = prompt F num1 num2 operation\<rparr>"

text \<open>The body of the \<open>try\<close> block of \<open>call_api\<close>, from the call of \<open>requests.post\<close> on.\<close>

definition call_api_try ::
  "'f float_ops \<Rightarrow> (request \<Rightarrow> pyexn + 'f response) \<Rightarrow> request \<Rightarrow> pyexn + 'f" where
  "call_api_try F post req =
     (case post req of
        Inl e \<Rightarrow> Inl e
      | Inr response \<Rightarrow>
          if status_code response = 200 then
            (case json_body response of
               Inl e \<Rightarrow> Inl e
             | Inr result \<Rightarrow> extract_result F result)
          else Inl (PyExn Exception (''API Error: '' @ str_int (status_code response))))"

text \<open>
  \<open>call_api\<close> returns the float or the exception it raises, and the list of the requests
  handed to \<open>requests.post\<close> so far.
\<close>

definition call_api ::
  "'f float_ops \<Rightarrow> (request \<Rightarrow> pyexn + 'f response) \<Rightarrow> CalculatorAPI \<Rightarrow> 'f \<Rightarrow> 'f \<Rightarrow> string
     \<Rightarrow> request list \<Rightarrow> (pyexn + 'f) \<times> request list" where
  "call_api F post self num1 num2 operation sent =
     (let req = build_request F self num1 num2 operation in
      (case call_api_try F post req of
         Inl e \<Rightarrow> Inl (PyExn Exception (''API call failed: '' @ str_exn e))
       | Inr v \<Rightarrow> Inr v,
       sent @ [req]))"

section \<open>\<open>class CalculatorApp\<close>: \<open>calculate\<close>\<close>

text \<open>
  \<open>self.root.update()\<close>, which lets the toolkit handle pending events while the label
  reads \<open>Calculating...\<close>, is not modelled: \<open>calculate\<close> is one uninterrupted run.
  The state that \<open>calculate\<close> reads and writes: the API client, the texts of the two
  entries, of the two labels and of the history widget, the error boxes shown so far
  (title and message), and the requests handed to \<open>requests.post\<close> so far.
\<close>

record CalculatorApp =
  api_client :: CalculatorAPI
  num1_entry :: string
  num2_entry :: string
  result_label :: string
  loading_label :: string
  history_text :: string
  errors_shown :: "(string \<times> string) list"
  sent :: "request list"

definition showerror :: "string \<Rightarrow> string \<Rightarrow> CalculatorApp \<Rightarrow> CalculatorApp" where
  "showerror title message app = app\<lparr>errors_shown := errors_shown app @ [(title, message)]\<rparr>"

text \<open>The two \<open>except\<close> clauses, in their order.\<close>

definition handle_exn :: "pyexn \<Rightarrow> CalculatorApp \<Rightarrow> CalculatorApp" where
  "handle_exn e app =
     (if is_ValueError (cls e) then showerror ''Error'' ''Please enter valid numbers'' app
      else showerror ''Error'' (str_exn e) app)"

text \<open>The \<open>finally\<close> clause.\<close>

definition finally_clause :: "CalculatorApp \<Rightarrow> CalculatorApp" where
  "finally_clause app = app\<lparr>loading_label := []\<rparr>"

definition calculate ::
  "'f float_ops \<Rightarrow> (request \<Rightarrow> pyexn + 'f response) \<Rightarrow> string \<Rightarrow> CalculatorApp \<Rightarrow> CalculatorApp" where
  "calculate F post operation app =
     finally_clause
       (case float_of_str F (num1_entry app) of
          Inl m \<Rightarrow> handle_exn (PyExn ValueError m) app
        | Inr num1 \<Rightarrow>
            (case float_of_str F (num2_entry app) of
               Inl m \<Rightarrow> handle_exn (PyExn ValueError m) app
             | Inr num2 \<Rightarrow>
                 if operation = ''/'' \<and> is_zero F num2
                 then showerror ''Error'' ''Cannot divide by zero'' app
                 else
                   (let app1 = app\<lparr>loading_label := ''Calculating...''\<rparr> in
                    case call_api F post (api_client app1) num1 num2 operation (sent app1) of
                      (Inl e, sent') \<Rightarrow> handle_exn e (app1\<lparr>sent := sent'\<rparr>)
                    | (Inr result, sent') \<Rightarrow>
                        app1\<lparr>sent := sent',
                             result_label := fmt_2f F result,
                             history_text := history_text app1 @ str_float F num1 @ '' ''
                               @ operation @ '' '' @ str_float F num2 @ '' = ''
                               @ fmt_2f F result @ [CHR 0x0A]\<rparr>)))"

text \<open>The four buttons of \<open>create_main_ui\<close> and what pressing one does.\<close>

definition operations :: "(string \<times> string) list" where
  "operations = [(''Add'', ''+''), (''Subtract'', ''-''), (''Multiply'', ''*''), (''Divide'', ''/'')]"

definition press_button ::
  "'f float_ops \<Rightarrow> (request \<Rightarrow> pyexn + 'f response) \<Rightarrow> string \<Rightarrow> CalculatorApp \<Rightarrow> CalculatorApp" where
  "press_button F post label app =
     (case map_of operations label of
        None \<Rightarrow> app
      | Some op \<Rightarrow> calculate F post op app)"


section \<open>Instances of the two library interfaces\<close>

text \<open>
  A cipher without secrecy that seals and opens bytes: the sealed bytes are the key
  followed by two copies of the data, and they are accepted when they start with the key
  and their two halves agree. It shows that the contract assumed below can be met, and it
  runs the examples.
\<close>

definition demo_decrypt :: "bytes \<Rightarrow> bytes \<Rightarrow> pyexn + bytes" where
  "demo_decrypt k t =
     (let rest = drop (length k) t; h = length rest div 2 in
      if take (length k) t = k \<and> take h rest = drop h rest
      then Inr (take h rest) else Inl (PyExn InvalidToken []))"

definition demo_cipher :: cipher where
  "demo_cipher =
     \<lparr>generate_key = (\<lambda>r. r),
      new_fernet = (\<lambda>k. if length k = 32 then None
                          else Some (PyExn ValueError ''Fernet key must be 32 bytes'')),
      encrypt = (\<lambda>k r d. k @ d @ d),
      decrypt = demo_decrypt\<rparr>"

text \<open>
  Floats that are whole numbers, written as Python writes them: \<open>6\<close> is the float
  \<open>6.0\<close>, printed \<open>6.0\<close> and, with two decimals, \<open>6.00\<close>. The instance reads a text
  of decimal digits with an optional minus sign and rejects every other text.
\<close>

fun digits_value :: "string \<Rightarrow> nat \<Rightarrow> nat option" where
  "digits_value [] acc = Some acc"
| "digits_value (ch # cs) acc =
     (if 48 \<le> (of_char ch :: nat) \<and> (of_char ch :: nat) \<le> 57
      then digits_value cs (acc * 10 + (of_char ch - 48))
      else None)"

definition whole_of_str :: "string \<Rightarrow> int option" where
  "whole_of_str s =
     (case s of
        [] \<Rightarrow> None
      | ch # cs \<Rightarrow>
          if ch = CHR ''-'' then
            (if cs = [] then None else map_option (\<lambda>n. - int n) (digits_value cs 0))
          else map_option int (digits_value s 0))"

definition demo_floats :: "int float_ops" where
  "demo_floats =
     \<lparr>float_of_str = (\<lambda>s. case whole_of_str s of
                          None \<Rightarrow> Inl (''could not convert string to float: '' @ quoted s)
                        | Some x \<Rightarrow> Inr x),
      float_of_int = Inr,
      is_zero = (\<lambda>x. x = 0),
      str_float = (\<lambda>x. str_int x @ ''.0''),
      fmt_2f = (\<lambda>x. str_int x @ ''.00'')\<rparr>"

text \<open>A profile: a home directory, nothing on disk, nothing refused.\<close>

definition fresh_disk :: filesystem where
  "fresh_disk = \<lparr>home = [''home'', ''user''], files = (\<lambda>p. None), refuses = (\<lambda>op p. None)\<rparr>"

definition demo_key :: bytes where
  "demo_key = replicate 32 0x41"

definition demo_manager :: APIKeyManager where
  "demo_manager =
     \<lparr>key_file = [''home'', ''user'', ''.calculator_api_key''], key_encryption_key = demo_key\<rparr>"

text \<open>A disk on which the key file and the credential file exist and cannot be read.\<close>

definition locked_disk :: filesystem where
  "locked_disk =
     \<lparr>home = [''home'', ''user''],
      files = (\<lambda>p. if p = [''home'', ''user'', ''.calculator_api_key''] then Some [0x41]
                   else if p = [''home'', ''user'', ''.calculator_key''] then Some demo_key
                   else None),
      refuses = (\<lambda>op p. if op = OpRead then Some ''Permission denied'' else None)\<rparr>"

text \<open>A disk on which the credential file holds one byte that is no token.\<close>

definition garbage_disk :: filesystem where
  "garbage_disk =
     \<lparr>home = [''home'', ''user''],
      files = (\<lambda>p. if p = [''home'', ''user'', ''.calculator_api_key''] then Some [0x41] else None),
      refuses = (\<lambda>op p. None)\<rparr>"


text \<open>The instance of the cipher under the text layer of the library.\<close>

definition text_cipher :: cipher where
  "text_cipher = fernet_over demo_cipher"

text \<open>A disk with nothing on it on which nothing can be written.\<close>

definition readonly_disk :: filesystem where
  "readonly_disk =
     \<lparr>home = [''home'', ''user''], files = (\<lambda>p. None),
      refuses = (\<lambda>op p. if op = OpWrite then Some ''Read-only file system'' else None)\<rparr>"

text \<open>
  A remote service that answers every request with status 200 and the given text in the
  first text field of the first candidate.
\<close>

definition answer_with :: "string \<Rightarrow> request \<Rightarrow> pyexn + int response" where
  "answer_with txt req =
     Inr \<lparr>status_code = 200,
          json_body = Inr (JObj [(''candidates'',
            JArr [JObj [(''content'', JObj [(''parts'', JArr [JObj [(''text'', JStr txt)]])])]])])\<rparr>"

text \<open>A network on which every request fails, and a service that answers with a status.\<close>

definition unreachable :: "request \<Rightarrow> pyexn + int response" where
  "unreachable req = Inl (PyExn RequestException ''Connection refused'')"

definition fail_with :: "string \<Rightarrow> request \<Rightarrow> pyexn + int response" where
  "fail_with message req = Inl (PyExn RequestException message)"

definition answer_status :: "int \<Rightarrow> request \<Rightarrow> pyexn + int response" where
  "answer_status code req = Inr \<lparr>status_code = code, json_body = Inr (JObj [])\<rparr>"

definition demo_app :: "string \<Rightarrow> string \<Rightarrow> CalculatorApp" where
  "demo_app n1 n2 =
     \<lparr>api_client = CalculatorAPI_init [0x6B], num1_entry = n1, num2_entry = n2,
      result_label = ''Result will appear here'', loading_label = [], history_text = [],
      errors_shown = [], sent = []\<rparr>"

section \<open>UTF-8: decoding what was encoded\<close>

lemma unat_byte: "n < 256 \<Longrightarrow> unat (of_nat n :: byte) = n"
  by (rule of_nat_inverse [OF refl]) simp

lemma decode1:
  "unat b0 < 0x80 \<Longrightarrow> bytes_decode (b0 # rest) = cons_cp (unat b0) (bytes_decode rest)"
  by simp

lemma decode2:
  "unat b0 = 0xC0 + h \<Longrightarrow> 2 \<le> h \<Longrightarrow> h \<le> 31 \<Longrightarrow> unat b1 = 0x80 + l \<Longrightarrow> l < 64 \<Longrightarrow>
   bytes_decode (b0 # b1 # rest) = cons_cp (h * 64 + l) (bytes_decode rest)"
  by (simp add: is_cont_def cont_bits_def)

lemma decode3:
  "unat b0 = 0xE0 + h \<Longrightarrow> h \<le> 15 \<Longrightarrow> unat b1 = 0x80 + m \<Longrightarrow> m < 64 \<Longrightarrow>
   unat b2 = 0x80 + l \<Longrightarrow> l < 64 \<Longrightarrow>
   0x800 \<le> h * 4096 + m * 64 + l \<Longrightarrow> \<not> is_surrogate (h * 4096 + m * 64 + l) \<Longrightarrow>
   bytes_decode (b0 # b1 # b2 # rest) = cons_cp (h * 4096 + m * 64 + l) (bytes_decode rest)"
  by (simp add: is_cont_def cont_bits_def)

lemma decode4:
  "unat b0 = 0xF0 + h \<Longrightarrow> h \<le> 4 \<Longrightarrow> unat b1 = 0x80 + m \<Longrightarrow> m < 64 \<Longrightarrow>
   unat b2 = 0x80 + l \<Longrightarrow> l < 64 \<Longrightarrow> unat b3 = 0x80 + k \<Longrightarrow> k < 64 \<Longrightarrow>
   0x10000 \<le> h * 262144 + m * 4096 + l * 64 + k \<Longrightarrow>
   h * 262144 + m * 4096 + l * 64 + k < 0x110000 \<Longrightarrow>
   bytes_decode (b0 # b1 # b2 # b3 # rest)
     = cons_cp (h * 262144 + m * 4096 + l * 64 + k) (bytes_decode rest)"
  by (simp add: is_cont_def cont_bits_def)

lemma split3: "(c::nat) div 4096 * 4096 + (c div 64) mod 64 * 64 + c mod 64 = c"
proof -
  have a: "c div 4096 = c div 64 div 64" by (simp add: div_mult2_eq [symmetric])
  have b: "c div 64 div 64 * 64 + c div 64 mod 64 = c div 64" by (rule div_mult_mod_eq)
  have c: "c div 64 * 64 + c mod 64 = c" by (rule div_mult_mod_eq)
  show ?thesis unfolding a using b c by linarith
qed

lemma split4:
  "(c::nat) div 262144 * 262144 + (c div 4096) mod 64 * 4096 + (c div 64) mod 64 * 64
     + c mod 64 = c"
proof -
  have a: "c div 262144 = c div 4096 div 64" by (simp add: div_mult2_eq [symmetric])
  have b: "c div 4096 div 64 * 64 + c div 4096 mod 64 = c div 4096" by (rule div_mult_mod_eq)
  show ?thesis unfolding a using b split3 [of c] by linarith
qed

lemma encode_cp_ranges:
  "encode_cp c = Some bs \<Longrightarrow>
   c < 0x80 \<or> (0x80 \<le> c \<and> c < 0x800) \<or> (0x800 \<le> c \<and> c < 0x10000 \<and> \<not> is_surrogate c)
    \<or> (0x10000 \<le> c \<and> c < 0x110000)"
  by (simp add: encode_cp_def split: if_splits)

lemma lead2: "0x80 \<le> c \<Longrightarrow> c < 0x800 \<Longrightarrow> 2 \<le> c div 64 \<and> c div 64 \<le> (31::nat)"
  by (simp add: less_eq_div_iff_mult_less_eq)

lemma lead3: "c < 0x10000 \<Longrightarrow> c div 4096 \<le> (15::nat)"
  by simp

lemma lead4: "c < 0x110000 \<Longrightarrow> c div 262144 \<le> (4::nat)"
  by simp

lemma decode_encode_cp:
  assumes "encode_cp c = Some bs"
  shows "bytes_decode (bs @ rest) = cons_cp c (bytes_decode rest)"
proof -
  consider "c < 0x80" | "0x80 \<le> c" "c < 0x800" | "0x800 \<le> c" "c < 0x10000" "\<not> is_surrogate c"
    | "0x10000 \<le> c" "c < 0x110000"
    using encode_cp_ranges [OF assms] by blast
  then show ?thesis
  proof cases
    case 1
    then have bs: "bs = [of_nat c]" using assms by (simp add: encode_cp_def)
    have u: "unat (of_nat c :: byte) = c" using 1 by (intro unat_byte) simp
    show ?thesis unfolding bs append_Cons append_Nil
      using decode1 [of "of_nat c" rest] 1 u by simp
  next
    case 2
    then have bs: "bs = [of_nat (0xC0 + c div 64), of_nat (0x80 + c mod 64)]"
      using assms by (simp add: encode_cp_def)
    have d: "2 \<le> c div 64" "c div 64 \<le> 31" using lead2 2 by blast+
    have u0: "unat (of_nat (0xC0 + c div 64) :: byte) = 0xC0 + c div 64"
      using d by (intro unat_byte) simp
    have u1: "unat (of_nat (0x80 + c mod 64) :: byte) = 0x80 + c mod 64"
      by (intro unat_byte) simp
    have "bytes_decode (bs @ rest) = cons_cp (c div 64 * 64 + c mod 64) (bytes_decode rest)"
      unfolding bs append_Cons append_Nil by (rule decode2 [OF u0 d u1]) simp
    then show ?thesis by (simp only: div_mult_mod_eq)
  next
    case 3
    then have bs: "bs = [of_nat (0xE0 + c div 4096), of_nat (0x80 + (c div 64) mod 64),
                    of_nat (0x80 + c mod 64)]"
      using assms by (simp add: encode_cp_def)
    have d: "c div 4096 \<le> 15" using lead3 3 by blast
    have u0: "unat (of_nat (0xE0 + c div 4096) :: byte) = 0xE0 + c div 4096"
      using d by (intro unat_byte) simp
    have u1: "unat (of_nat (0x80 + (c div 64) mod 64) :: byte) = 0x80 + (c div 64) mod 64"
      by (intro unat_byte) simp
    have u2: "unat (of_nat (0x80 + c mod 64) :: byte) = 0x80 + c mod 64"
      by (intro unat_byte) simp
    have m: "(c div 64) mod 64 < 64" "c mod 64 < 64" by simp_all
    have r: "0x800 \<le> c div 4096 * 4096 + (c div 64) mod 64 * 64 + c mod 64"
      "\<not> is_surrogate (c div 4096 * 4096 + (c div 64) mod 64 * 64 + c mod 64)"
      unfolding split3 using 3 by simp_all
    have "bytes_decode (bs @ rest)
            = cons_cp (c div 4096 * 4096 + (c div 64) mod 64 * 64 + c mod 64) (bytes_decode rest)"
      unfolding bs append_Cons append_Nil
      by (rule decode3 [OF u0 d u1 m(1) u2 m(2) r])
    then show ?thesis by (simp only: split3)
  next
    case 4
    then have bs: "bs = [of_nat (0xF0 + c div 262144), of_nat (0x80 + (c div 4096) mod 64),
              of_nat (0x80 + (c div 64) mod 64), of_nat (0x80 + c mod 64)]"
      using assms by (simp add: encode_cp_def)
    have d: "c div 262144 \<le> 4" using lead4 4 by blast
    have u0: "unat (of_nat (0xF0 + c div 262144) :: byte) = 0xF0 + c div 262144"
      using d by (intro unat_byte) simp
    have u1: "unat (of_nat (0x80 + (c div 4096) mod 64) :: byte) = 0x80 + (c div 4096) mod 64"
      by (intro unat_byte) simp
    have u2: "unat (of_nat (0x80 + (c div 64) mod 64) :: byte) = 0x80 + (c div 64) mod 64"
      by (intro unat_byte) simp
    have u3: "unat (of_nat (0x80 + c mod 64) :: byte) = 0x80 + c mod 64"
      by (intro unat_byte) simp
    have m: "(c div 4096) mod 64 < 64" "(c div 64) mod 64 < 64" "c mod 64 < 64" by simp_all
    have r: "0x10000 \<le> c div 262144 * 262144 + (c div 4096) mod 64 * 4096
                        + (c div 64) mod 64 * 64 + c mod 64"
      "c div 262144 * 262144 + (c div 4096) mod 64 * 4096
         + (c div 64) mod 64 * 64 + c mod 64 < 0x110000"
      unfolding split4 using 4 by simp_all
    have "bytes_decode (bs @ rest)
            = cons_cp (c div 262144 * 262144 + (c div 4096) mod 64 * 4096
                       + (c div 64) mod 64 * 64 + c mod 64) (bytes_decode rest)"
      unfolding bs append_Cons append_Nil
      by (rule decode4 [OF u0 d u1 m(1) u2 m(2) u3 m(3) r])
    then show ?thesis by (simp only: split4)
  qed
qed

lemma decode_encode: "str_encode s = Inr bs \<Longrightarrow> bytes_decode bs = Inr s"
proof (induction s arbitrary: bs)
  case Nil
  then show ?case by simp
next
  case (Cons c cs)
  from Cons.prems obtain b r where b: "encode_cp c = Some b" and r: "str_encode cs = Inr r"
    and bs: "bs = b @ r"
    by (auto split: option.splits sum.splits)
  have "bytes_decode r = Inr cs" using Cons.IH [OF r] .
  then show ?case unfolding bs by (simp only: decode_encode_cp [OF b] cons_cp_def sum.case)
qed

lemma encode_cp_defined:
  "ch < 0x110000 \<Longrightarrow> \<not> is_surrogate ch \<Longrightarrow> \<exists>bs. encode_cp ch = Some bs"
  by (simp add: encode_cp_def)

lemma str_encode_defined:
  "\<forall>ch \<in> set s. ch < 0x110000 \<and> \<not> is_surrogate ch \<Longrightarrow> \<exists>d. str_encode s = Inr d"
proof (induction s)
  case Nil
  then show ?case by simp
next
  case (Cons ch s)
  then obtain d where "str_encode s = Inr d" by auto
  moreover obtain bs where "encode_cp ch = Some bs"
    using Cons.prems encode_cp_defined [of ch] by auto
  ultimately show ?case by simp
qed

section \<open>The text layer: decoding what was encoded\<close>

lemma unat_b64_char:
  "n < 64 \<Longrightarrow> unat (b64_char n)
     = (if n < 26 then 65 + n else if n < 52 then 71 + n else if n < 62 then n - 4
        else if n = 62 then 45 else 95)"
  unfolding b64_char_def by (rule unat_byte) auto

lemma b64_value_char: "n < 64 \<Longrightarrow> b64_value (b64_char n) = Some n"
  by (auto simp: b64_value_def unat_b64_char)

lemma b64_char_not_pad: "n < 64 \<Longrightarrow> b64_char n \<noteq> 0x3D"
proof
  assume n: "n < 64" and "b64_char n = 0x3D"
  then have "unat (b64_char n) = 61" by simp
  then show False using n by (auto simp: unat_b64_char split: if_splits)
qed


lemma a2b_group:
  assumes "v0 < 64" "v1 < 64" "v2 < 64" "v3 < 64"
  shows "a2b_base64 (b64_char v0 # b64_char v1 # b64_char v2 # b64_char v3 # cs) 0 l p
     = emit (v0 * 4 + v1 div 16) (emit (v1 mod 16 * 16 + v2 div 4)
         (emit (v2 mod 4 * 64 + v3) (a2b_base64 cs 0 0 0)))"
  using assms by (simp add: b64_value_char b64_char_not_pad)

lemma a2b_tail1:
  assumes "v0 < 64" "v1 < 64"
  shows "a2b_base64 [b64_char v0, b64_char v1, 0x3D, 0x3D] 0 l p
     = Inr [of_nat (v0 * 4 + v1 div 16)]"
  using assms by (simp add: b64_value_char b64_char_not_pad emit_def)

lemma a2b_tail2:
  assumes "v0 < 64" "v1 < 64" "v2 < 64"
  shows "a2b_base64 [b64_char v0, b64_char v1, b64_char v2, 0x3D] 0 l p
     = Inr [of_nat (v0 * 4 + v1 div 16), of_nat (v1 mod 16 * 16 + v2 div 4)]"
  using assms by (simp add: b64_value_char b64_char_not_pad emit_def)


lemma byte_lt: "unat (x :: byte) < 256"
  using unsigned_less [of x] by simp

lemma sextet_bounds:
  assumes "a < 256" "b < 256" "c < (256::nat)"
  shows "a div 4 < 64" "a mod 4 * 16 + b div 16 < 64" "b mod 16 * 4 + c div 64 < 64"
    "c mod 64 < 64" "a mod 4 * 16 < 64" "b mod 16 * 4 < 64"
proof -
  have "a mod 4 < 4" "b div 16 < 16" "b mod 16 < 16" "c div 64 < 4" using assms by auto
  then show "a mod 4 * 16 + b div 16 < 64" "b mod 16 * 4 + c div 64 < 64"
    "a mod 4 * 16 < 64" "b mod 16 * 4 < 64" by linarith+
  show "a div 4 < 64" using assms by auto
  show "c mod 64 < 64" by simp
qed

lemma join_first: "b < 256 \<Longrightarrow> a div 4 * 4 + (a mod 4 * 16 + b div 16) div 16 = (a::nat)"
proof -
  assume "b < 256"
  then have "b div 16 < 16" by auto
  then have "(a mod 4 * 16 + b div 16) div 16 = a mod 4" by simp
  then show ?thesis by simp
qed

lemma join_second:
  "b < 256 \<Longrightarrow> c < 256
   \<Longrightarrow> (a mod 4 * 16 + b div 16) mod 16 * 16 + (b mod 16 * 4 + c div 64) div 4 = (b::nat)"
proof -
  assume "b < 256" "c < 256"
  then have l: "b div 16 < 16" "c div 64 < 4" by auto
  then have "(a mod 4 * 16 + b div 16) mod 16 = b div 16" by simp
  moreover have "(b mod 16 * 4 + c div 64) div 4 = b mod 16" using l by simp
  ultimately show ?thesis by simp
qed

lemma join_third: "c < 256 \<Longrightarrow> (b mod 16 * 4 + c div 64) mod 4 * 64 + c mod 64 = (c::nat)"
proof -
  assume "c < 256"
  then have "c div 64 < 4" by auto
  then have "(b mod 16 * 4 + c div 64) mod 4 = c div 64" by simp
  then show ?thesis by simp
qed

lemma b64_round_trip: "a2b_base64 (urlsafe_b64encode bs) 0 l p = Inr bs"
proof (induction bs arbitrary: l p rule: urlsafe_b64encode.induct)
  case 1
  then show ?case by simp
next
  case (2 x)
  note b = sextet_bounds [OF byte_lt [of x] byte_lt [of x] byte_lt [of x]]
  have "unat x div 4 * 4 + unat x mod 4 * 16 div 16 = unat x" by simp
  then show ?case
    by (simp only: urlsafe_b64encode.simps a2b_tail1 [OF b(1) b(5)]) simp
next
  case (3 x y)
  note b = sextet_bounds [OF byte_lt [of x] byte_lt [of y] byte_lt [of y]]
  have 1: "unat x div 4 * 4 + (unat x mod 4 * 16 + unat y div 16) div 16 = unat x"
    by (rule join_first [OF byte_lt])
  have "unat y div 16 < 16" using byte_lt [of y] by auto
  then have 2: "(unat x mod 4 * 16 + unat y div 16) mod 16 * 16 + unat y mod 16 * 4 div 4 = unat y"
    by simp
  show ?case
    by (simp only: urlsafe_b64encode.simps a2b_tail2 [OF b(1) b(2) b(6)] 1 2) simp
next
  case (4 x y z rest)
  note b = sextet_bounds [OF byte_lt [of x] byte_lt [of y] byte_lt [of z]]
  have 1: "unat x div 4 * 4 + (unat x mod 4 * 16 + unat y div 16) div 16 = unat x"
    by (rule join_first [OF byte_lt])
  have 2: "(unat x mod 4 * 16 + unat y div 16) mod 16 * 16
             + (unat y mod 16 * 4 + unat z div 64) div 4 = unat y"
    by (rule join_second [OF byte_lt byte_lt])
  have 3: "(unat y mod 16 * 4 + unat z div 64) mod 4 * 64 + unat z mod 64 = unat z"
    by (rule join_third [OF byte_lt])
  show ?case
    by (simp only: urlsafe_b64encode.simps append_Cons append_Nil
          a2b_group [OF b(1) b(2) b(3) b(4)] 1 2 3 "4.IH") (simp add: emit_def)
qed

lemma urlsafe_b64_round_trip: "urlsafe_b64decode (urlsafe_b64encode bs) = Inr bs"
  by (simp add: urlsafe_b64decode_def b64_round_trip)

text \<open>
  So the library with its text layer decrypts what it encrypted whenever the cipher below
  the text layer does: the contract of the round trip is met in this shape too.
\<close>

lemma fernet_over_round_trip:
  "cipher_round_trip inner k \<Longrightarrow> cipher_round_trip (fernet_over inner) k"
  by (simp add: cipher_round_trip_def fernet_over_def urlsafe_b64_round_trip)

section \<open>The instance of the cipher\<close>

lemma demo_round_trip: "cipher_round_trip demo_cipher k"
  by (simp add: cipher_round_trip_def demo_cipher_def demo_decrypt_def)

lemma demo_decrypt_garbage: "decrypt demo_cipher demo_key [0x41] = Inl (PyExn InvalidToken [])"
proof -
  have "length (replicate 32 (0x41 :: byte)) \<noteq> length [0x41 :: byte]" by simp
  then have "[0x41 :: byte] \<noteq> replicate 32 0x41" by (metis (no_types))
  then show ?thesis by (simp add: demo_cipher_def demo_decrypt_def demo_key_def)
qed

section \<open>The credential store\<close>

lemma stat_error_None:
  "refuses fs OpRead p = None \<or> refuses fs OpWrite p = None \<or> refuses fs OpUnlink p = None
   \<Longrightarrow> stat_error fs p = None"
  by (auto simp: stat_error_def split: option.splits)

lemma stat_error_Some:
  "stat_error fs p = Some m \<Longrightarrow>
   refuses fs OpRead p = Some m \<and> refuses fs OpWrite p = Some m \<and> refuses fs OpUnlink p = Some m"
  by (auto simp: stat_error_def split: option.splits if_splits)

lemma stat_error_files [simp]: "stat_error (fs\<lparr>files := f\<rparr>) p = stat_error fs p"
  by (simp add: stat_error_def split: option.splits)

lemma Path_exists_ok:
  "stat_error fs p = None \<Longrightarrow> Path_exists fs p = Inr (files fs p \<noteq> None)"
  by (simp add: Path_exists_def path_exists_def)

lemma Path_exists_raises:
  "stat_error fs p = Some m \<Longrightarrow> Path_exists fs p = Inl (PyExn OSError m)"
  by (simp add: Path_exists_def)

lemma save_api_key_result:
  assumes "save_api_key c rnd s (self, fs) = (Inr u, self', fs')"
  shows "\<exists>d. str_encode s = Inr d \<and> self' = self
           \<and> fs' = fs\<lparr>files := (files fs)(key_file self \<mapsto>
                        encrypt c (key_encryption_key self) rnd d)\<rparr>"
  using assms
  by (auto simp: save_api_key_def Let_def write_bytes_def
           split: sum.splits option.splits prod.splits)

text \<open>
  \<open>save_api_key\<close> returns for every string without surrogate code points when the
  operating system lets the credential file be written.
\<close>

lemma save_api_key_returns:
  assumes "\<forall>ch \<in> set s. ch < 0x110000 \<and> \<not> is_surrogate ch"
    and "refuses fs OpWrite (key_file self) = None"
  shows "\<exists>fs'. save_api_key c rnd s (self, fs) = (Inr (), self, fs')"
proof -
  obtain d where "str_encode s = Inr d" using str_encode_defined [OF assms(1)] by blast
  then show ?thesis using assms(2) by (simp add: save_api_key_def write_bytes_def)
qed

text \<open>
  C1. Round trip: when \<open>save_api_key\<close> has stored the string \<open>s\<close>, \<open>load_api_key\<close> on
  the same object and the disk that the save left returns exactly \<open>s\<close>. The cipher is
  assumed to decrypt what it encrypted under the object's key, and the operating system
  to let the credential file be read.
\<close>

theorem save_then_load_round_trip:
  assumes "cipher_round_trip c (key_encryption_key self)"
    and "save_api_key c rnd s (self, fs) = (Inr (), self', fs')"
    and "refuses fs OpRead (key_file self) = None"
  shows "load_api_key c (self', fs') = (Inr (Some s), self', fs')"
proof -
  from save_api_key_result [OF assms(2)] obtain d where d: "str_encode s = Inr d"
    and self: "self' = self"
    and fs': "fs' = fs\<lparr>files := (files fs)(key_file self \<mapsto>
                      encrypt c (key_encryption_key self) rnd d)\<rparr>"
    by blast
  have dec: "bytes_decode d = Inr s" using decode_encode [OF d] .
  have rt: "decrypt c (key_encryption_key self) (encrypt c (key_encryption_key self) rnd d) = Inr d"
    using assms(1) by (simp add: cipher_round_trip_def)
  have st: "stat_error fs (key_file self) = None"
    using assms(3) by (simp add: stat_error_None)
  show ?thesis
    unfolding self fs'
    by (simp add: load_api_key_def load_api_key_try_def Path_exists_ok st read_bytes_def
          assms(3) rt dec)
qed

theorem save_then_load_round_trip_witness:
  "cipher_round_trip demo_cipher (key_encryption_key demo_manager)
   \<and> fst (save_api_key demo_cipher [] [0x73, 0x6B, 0xE9, 0x20AC] (demo_manager, fresh_disk)) = Inr ()
   \<and> refuses fresh_disk OpRead (key_file demo_manager) = None
   \<and> fst (load_api_key demo_cipher
             (snd (save_api_key demo_cipher [] [0x73, 0x6B, 0xE9, 0x20AC] (demo_manager, fresh_disk))))
       = Inr (Some [0x73, 0x6B, 0xE9, 0x20AC])"
proof -
  obtain fs' where sv: "save_api_key demo_cipher [] [0x73, 0x6B, 0xE9, 0x20AC]
      (demo_manager, fresh_disk) = (Inr (), demo_manager, fs')"
    using save_api_key_returns [of "[0x73, 0x6B, 0xE9, 0x20AC]" fresh_disk demo_manager demo_cipher "[]"]
    by (auto simp: is_surrogate_def fresh_disk_def)
  have rd: "refuses fresh_disk OpRead (key_file demo_manager) = None"
    by (simp add: fresh_disk_def)
  show ?thesis
    using save_then_load_round_trip [OF demo_round_trip sv rd] demo_round_trip sv rd by simp
qed

text \<open>
  C2, as the code has it. \<open>load_api_key\<close> never raises: it returns a value and leaves
  the object and the disk as they are. It returns \<open>None\<close> when the credential file does
  not exist, and when the file exists and the cipher rejects its content (with whatever
  exception). A string that is returned is the decoding of data that the cipher accepted
  from the file. A changed token gives \<open>None\<close> when the library rejects it, and not
  otherwise: the library decodes the text of the token before it checks anything, so two
  tokens that decode to the same bytes load the same.
\<close>

theorem load_api_key_None_on_failure:
  "(\<exists>v. load_api_key c (self, fs) = (Inr v, self, fs))
   \<and> (\<not> path_exists fs (key_file self) \<longrightarrow> fst (load_api_key c (self, fs)) = Inr None)
   \<and> (files fs (key_file self) = Some t \<and> decrypt c (key_encryption_key self) t = Inl e
        \<longrightarrow> fst (load_api_key c (self, fs)) = Inr None)
   \<and> (fst (load_api_key c (self, fs)) = Inr (Some s)
        \<longrightarrow> (\<exists>t' d'. files fs (key_file self) = Some t'
              \<and> decrypt c (key_encryption_key self) t' = Inr d' \<and> bytes_decode d' = Inr s))
   \<and> (urlsafe_b64decode t2 = urlsafe_b64decode t1
        \<longrightarrow> fst (load_api_key (fernet_over inner)
                    (self, fs\<lparr>files := (files fs)(key_file self \<mapsto> t2)\<rparr>))
            = fst (load_api_key (fernet_over inner)
                    (self, fs\<lparr>files := (files fs)(key_file self \<mapsto> t1)\<rparr>)))"
proof (intro conjI impI)
  show "\<exists>v. load_api_key c (self, fs) = (Inr v, self, fs)"
    by (simp add: load_api_key_def split: sum.splits)
  show "fst (load_api_key c (self, fs)) = Inr None" if "\<not> path_exists fs (key_file self)"
    using that
    by (simp add: load_api_key_def load_api_key_try_def Path_exists_def
             split: option.splits sum.splits)
  show "fst (load_api_key c (self, fs)) = Inr None"
    if "files fs (key_file self) = Some t \<and> decrypt c (key_encryption_key self) t = Inl e"
    using that
    by (simp add: load_api_key_def load_api_key_try_def Path_exists_def path_exists_def
             read_bytes_def split: option.splits sum.splits)
  show "\<exists>t' d'. files fs (key_file self) = Some t'
              \<and> decrypt c (key_encryption_key self) t' = Inr d' \<and> bytes_decode d' = Inr s"
    if "fst (load_api_key c (self, fs)) = Inr (Some s)"
    using that
    by (auto simp: load_api_key_def load_api_key_try_def Path_exists_def path_exists_def
             read_bytes_def split: option.splits sum.splits if_splits)
  show "fst (load_api_key (fernet_over inner)
               (self, fs\<lparr>files := (files fs)(key_file self \<mapsto> t2)\<rparr>))
        = fst (load_api_key (fernet_over inner)
               (self, fs\<lparr>files := (files fs)(key_file self \<mapsto> t1)\<rparr>))"
    if "urlsafe_b64decode t2 = urlsafe_b64decode t1"
    using that
    by (simp add: load_api_key_def load_api_key_try_def Path_exists_def path_exists_def
             read_bytes_def fernet_over_def split: option.splits sum.splits)
qed

theorem load_api_key_None_on_failure_witness:
  "\<not> path_exists fresh_disk (key_file demo_manager)
   \<and> fst (load_api_key demo_cipher (demo_manager, fresh_disk)) = Inr None
   \<and> files garbage_disk (key_file demo_manager) = Some [0x41]
   \<and> decrypt demo_cipher (key_encryption_key demo_manager) [0x41] = Inl (PyExn InvalidToken [])
   \<and> fst (load_api_key demo_cipher (demo_manager, garbage_disk)) = Inr None
   \<and> fst (load_api_key demo_cipher (demo_manager, fresh_disk\<lparr>files := (files fresh_disk)(key_file demo_manager \<mapsto>
                   encrypt demo_cipher (key_encryption_key demo_manager) [] [0x73])\<rparr>)) = Inr (Some [0x73])
   \<and> (\<exists>t' d'. files (fresh_disk\<lparr>files := (files fresh_disk)(key_file demo_manager \<mapsto>
                   encrypt demo_cipher (key_encryption_key demo_manager) [] [0x73])\<rparr>) (key_file demo_manager) = Some t'
          \<and> decrypt demo_cipher (key_encryption_key demo_manager) t' = Inr d'
          \<and> bytes_decode d' = Inr [0x73])
   \<and> urlsafe_b64decode [0x51, 0x52, 0x3D, 0x3D] = urlsafe_b64decode [0x51, 0x51, 0x3D, 0x3D]
   \<and> fst (load_api_key (fernet_over demo_cipher)
            (demo_manager, fresh_disk\<lparr>files := (files fresh_disk)(key_file demo_manager \<mapsto>
               [0x51, 0x52, 0x3D, 0x3D])\<rparr>))
       = fst (load_api_key (fernet_over demo_cipher)
            (demo_manager, fresh_disk\<lparr>files := (files fresh_disk)(key_file demo_manager \<mapsto>
               [0x51, 0x51, 0x3D, 0x3D])\<rparr>))"
proof -
  let ?k = "key_encryption_key demo_manager"
  let ?saved = "fresh_disk\<lparr>files := (files fresh_disk)(key_file demo_manager \<mapsto>
                   encrypt demo_cipher ?k [] [0x73])\<rparr>"
  have a: "\<not> path_exists fresh_disk (key_file demo_manager)"
    by (simp add: path_exists_def fresh_disk_def)
  have g: "files garbage_disk (key_file demo_manager) = Some [0x41]"
    by (simp add: garbage_disk_def demo_manager_def)
  have gd: "decrypt demo_cipher ?k [0x41] = Inl (PyExn InvalidToken [])"
    using demo_decrypt_garbage by (simp add: demo_manager_def)
  have rt: "decrypt demo_cipher ?k (encrypt demo_cipher ?k [] [0x73]) = Inr [0x73]"
    using demo_round_trip [of ?k] by (simp add: cipher_round_trip_def)
  have rd: "refuses fresh_disk OpRead (key_file demo_manager) = None"
    by (simp add: fresh_disk_def)
  have st: "stat_error fresh_disk (key_file demo_manager) = None"
    using rd by (simp add: stat_error_None)
  have ld: "fst (load_api_key demo_cipher (demo_manager, ?saved)) = Inr (Some [0x73])"
    by (simp add: load_api_key_def load_api_key_try_def Path_exists_ok st read_bytes_def rd rt
          cons_cp_def)
  have b: "urlsafe_b64decode [0x51, 0x52, 0x3D, 0x3D] = urlsafe_b64decode [0x51, 0x51, 0x3D, 0x3D]"
    by code_simp
  note inst = load_api_key_None_on_failure [where c = demo_cipher and self = demo_manager]
  have 1: "fst (load_api_key demo_cipher (demo_manager, fresh_disk)) = Inr None"
    using inst [where fs = fresh_disk] a by blast
  have 2: "fst (load_api_key demo_cipher (demo_manager, garbage_disk)) = Inr None"
    using inst [where fs = garbage_disk and t = "[0x41]" and e = "PyExn InvalidToken []"] g gd
    by blast
  have 3: "\<exists>t' d'. files ?saved (key_file demo_manager) = Some t'
          \<and> decrypt demo_cipher ?k t' = Inr d' \<and> bytes_decode d' = Inr [0x73]"
    using inst [where fs = ?saved and s = "[0x73]"] ld by blast
  have 4: "fst (load_api_key (fernet_over demo_cipher)
            (demo_manager, fresh_disk\<lparr>files := (files fresh_disk)(key_file demo_manager \<mapsto>
               [0x51, 0x52, 0x3D, 0x3D])\<rparr>))
       = fst (load_api_key (fernet_over demo_cipher)
            (demo_manager, fresh_disk\<lparr>files := (files fresh_disk)(key_file demo_manager \<mapsto>
               [0x51, 0x51, 0x3D, 0x3D])\<rparr>))"
    using inst [where fs = fresh_disk and ?t2.0 = "[0x51, 0x52, 0x3D, 0x3D]"
                  and ?t1.0 = "[0x51, 0x51, 0x3D, 0x3D]" and inner = demo_cipher] b
    by blast
  show ?thesis
    using a g gd 1 2 3 4 ld b by (intro conjI)
qed

text \<open>
  C2 as it is stated fails for its tamper part. The credential \<open>s\<close> is saved; the token
  on the disk ends in \<open>cw==\<close>, and the \<open>w\<close> carries four bits that fill no byte. With
  that one byte changed to \<open>x\<close> the token decodes to the same bytes, and \<open>load_api_key\<close>
  returns the credential, not \<open>None\<close>.
\<close>

theorem load_api_key_tamper_counterexample:
  "fst (save_api_key text_cipher [] [0x73] (demo_manager, fresh_disk)) = Inr ()
   \<and> files (snd (snd (save_api_key text_cipher [] [0x73] (demo_manager, fresh_disk))))
        (key_file demo_manager)
       = Some (encrypt text_cipher (key_encryption_key demo_manager) [] [0x73])
   \<and> fst (load_api_key text_cipher
            (snd (save_api_key text_cipher [] [0x73] (demo_manager, fresh_disk))))
       = Inr (Some [0x73])
   \<and> encrypt text_cipher (key_encryption_key demo_manager) [] [0x73] ! 45 = 0x77
   \<and> fst (load_api_key text_cipher
            (demo_manager, fresh_disk\<lparr>files := (files fresh_disk)(key_file demo_manager \<mapsto>
               (encrypt text_cipher (key_encryption_key demo_manager) [] [0x73])[45 := 0x78])\<rparr>))
       = Inr (Some [0x73])
   \<and> fst (load_api_key text_cipher
            (demo_manager, fresh_disk\<lparr>files := (files fresh_disk)(key_file demo_manager \<mapsto>
               (encrypt text_cipher (key_encryption_key demo_manager) [] [0x73])[45 := 0x78])\<rparr>))
       \<noteq> Inr None"
  by code_simp

text \<open>
  C3. \<open>_get_or_create_encryption_key\<close>: when the key file exists (and can be read) it
  returns the bytes of the file and changes nothing; when it does not exist (and can be
  written) it generates a key, writes it to the key path and returns it. After a call that
  returned a key, a second call returns the same key and changes nothing, whatever new
  random bytes it is given: two calls that both return, return the same bytes.
\<close>

theorem get_or_create_encryption_key_idempotent:
  "(files fs (key_path_of fs) = Some k \<and> refuses fs OpRead (key_path_of fs) = None
      \<longrightarrow> get_or_create_encryption_key c rnd fs = (Inr k, fs))
   \<and> (files fs (key_path_of fs) = None \<and> refuses fs OpWrite (key_path_of fs) = None
      \<longrightarrow> get_or_create_encryption_key c rnd fs
            = (Inr (generate_key c rnd),
               fs\<lparr>files := (files fs)(key_path_of fs \<mapsto> generate_key c rnd)\<rparr>))
   \<and> (get_or_create_encryption_key c rnd fs = (Inr k1, fs1)
        \<and> refuses fs OpRead (key_path_of fs) = None
      \<longrightarrow> get_or_create_encryption_key c rnd2 fs1 = (Inr k1, fs1))
   \<and> (get_or_create_encryption_key c rnd fs = (Inr k1, fs1)
        \<and> get_or_create_encryption_key c rnd2 fs1 = (Inr k2, fs2)
      \<longrightarrow> k2 = k1 \<and> fs2 = fs1)"
proof -
  have first: "files fs1 (key_path_of fs1) = Some k1 \<and> refuses fs1 = refuses fs
                 \<and> key_path_of fs1 = key_path_of fs \<and> stat_error fs (key_path_of fs) = None"
    if "get_or_create_encryption_key c rnd fs = (Inr k1, fs1)" for k1 fs1
    using that
    by (auto simp: get_or_create_encryption_key_def Let_def Path_exists_def path_exists_def
          write_bytes_def read_bytes_def key_path_of_def
        split: if_splits option.splits sum.splits)
  have again: "get_or_create_encryption_key c rnd2 fs1 = (read_bytes fs1 (key_path_of fs1), fs1)"
    if "files fs1 (key_path_of fs1) = Some k1" and "stat_error fs1 (key_path_of fs1) = None"
    for k1 fs1
    using that by (simp add: get_or_create_encryption_key_def Let_def Path_exists_ok)
  have same_stat: "stat_error fs1 (key_path_of fs1) = stat_error fs (key_path_of fs)"
    if "refuses fs1 = refuses fs" and "key_path_of fs1 = key_path_of fs" for fs1
    using that by (simp add: stat_error_def split: option.splits)
  show ?thesis
  proof (intro conjI impI)
    show "get_or_create_encryption_key c rnd fs = (Inr k, fs)"
      if "files fs (key_path_of fs) = Some k \<and> refuses fs OpRead (key_path_of fs) = None"
      using that
      by (simp add: get_or_create_encryption_key_def Let_def Path_exists_ok stat_error_None
            read_bytes_def)
    show "get_or_create_encryption_key c rnd fs
            = (Inr (generate_key c rnd),
               fs\<lparr>files := (files fs)(key_path_of fs \<mapsto> generate_key c rnd)\<rparr>)"
      if "files fs (key_path_of fs) = None \<and> refuses fs OpWrite (key_path_of fs) = None"
      using that
      by (simp add: get_or_create_encryption_key_def Let_def Path_exists_ok stat_error_None
            write_bytes_def)
    show "get_or_create_encryption_key c rnd2 fs1 = (Inr k1, fs1)"
      if h: "get_or_create_encryption_key c rnd fs = (Inr k1, fs1)
             \<and> refuses fs OpRead (key_path_of fs) = None"
    proof -
      from h first have f: "files fs1 (key_path_of fs1) = Some k1"
        and r: "refuses fs1 OpRead (key_path_of fs1) = None" by auto
      have s: "stat_error fs1 (key_path_of fs1) = None" using r by (simp add: stat_error_None)
      show ?thesis using again [OF f s] f r by (simp add: read_bytes_def)
    qed
    assume h: "get_or_create_encryption_key c rnd fs = (Inr k1, fs1)
               \<and> get_or_create_encryption_key c rnd2 fs1 = (Inr k2, fs2)"
    from h first have f: "files fs1 (key_path_of fs1) = Some k1"
      and s: "stat_error fs1 (key_path_of fs1) = None"
      using same_stat [of fs1] by auto
    from h again [OF f s] have "read_bytes fs1 (key_path_of fs1) = Inr k2" and e: "fs2 = fs1"
      by auto
    with f have "k2 = k1" by (auto simp: read_bytes_def split: option.splits)
    with e show "k2 = k1" and "fs2 = fs1" by auto
  qed
qed

theorem get_or_create_encryption_key_idempotent_witness:
  "files fresh_disk (key_path_of fresh_disk) = None
   \<and> refuses fresh_disk OpWrite (key_path_of fresh_disk) = None
   \<and> refuses fresh_disk OpRead (key_path_of fresh_disk) = None
   \<and> fst (get_or_create_encryption_key demo_cipher demo_key fresh_disk) = Inr demo_key
   \<and> files (snd (get_or_create_encryption_key demo_cipher demo_key fresh_disk))
        [''home'', ''user'', ''.calculator_key''] = Some demo_key
   \<and> fst (get_or_create_encryption_key demo_cipher [0x01]
        (snd (get_or_create_encryption_key demo_cipher demo_key fresh_disk))) = Inr demo_key"
proof -
  have a: "files fresh_disk (key_path_of fresh_disk) = None"
    and w: "refuses fresh_disk OpWrite (key_path_of fresh_disk) = None"
    and r: "refuses fresh_disk OpRead (key_path_of fresh_disk) = None"
    by (simp_all add: fresh_disk_def)
  note idem = get_or_create_encryption_key_idempotent
  have one: "get_or_create_encryption_key demo_cipher demo_key fresh_disk
      = (Inr (generate_key demo_cipher demo_key),
         fresh_disk\<lparr>files := (files fresh_disk)(key_path_of fresh_disk \<mapsto>
           generate_key demo_cipher demo_key)\<rparr>)"
    using idem [of fresh_disk _ demo_cipher demo_key] a w by blast
  have two: "get_or_create_encryption_key demo_cipher [0x01]
       (fresh_disk\<lparr>files := (files fresh_disk)(key_path_of fresh_disk \<mapsto>
           generate_key demo_cipher demo_key)\<rparr>)
      = (Inr (generate_key demo_cipher demo_key),
         fresh_disk\<lparr>files := (files fresh_disk)(key_path_of fresh_disk \<mapsto>
           generate_key demo_cipher demo_key)\<rparr>)"
    using idem [of fresh_disk _ demo_cipher demo_key "generate_key demo_cipher demo_key"
                 "fresh_disk\<lparr>files := (files fresh_disk)(key_path_of fresh_disk \<mapsto>
                    generate_key demo_cipher demo_key)\<rparr>" "[0x01]"] one r
    by blast
  have g: "generate_key demo_cipher demo_key = demo_key" by (simp add: demo_cipher_def)
  have kp: "key_path_of fresh_disk = [''home'', ''user'', ''.calculator_key'']"
    by (simp add: key_path_of_def fresh_disk_def)
  show ?thesis using a w r one two unfolding g kp by simp
qed

text \<open>
  C4, as the code has it. \<open>_get_or_create_encryption_key\<close> and \<open>save_api_key\<close> raise
  the \<open>OSError\<close> of a write or read that the operating system refuses.
  \<open>load_api_key\<close> does not: its \<open>except Exception\<close> turns a refused read into
  \<open>None\<close>, as it does a token that the cipher rejects.
\<close>

theorem storage_errors_surface_except_in_load:
  "(files fs (key_path_of fs) = None \<and> refuses fs OpWrite (key_path_of fs) = Some m
      \<longrightarrow> get_or_create_encryption_key c rnd fs = (Inl (PyExn OSError m), fs))
   \<and> (files fs (key_path_of fs) = Some k \<and> refuses fs OpRead (key_path_of fs) = Some m
      \<longrightarrow> get_or_create_encryption_key c rnd fs = (Inl (PyExn OSError m), fs))
   \<and> (str_encode s = Inr d \<and> refuses fs OpWrite (key_file self) = Some m
      \<longrightarrow> save_api_key c rnd s (self, fs) = (Inl (PyExn OSError m), self, fs))
   \<and> (refuses fs OpRead (key_file self) = Some m
      \<longrightarrow> load_api_key c (self, fs) = (Inr None, self, fs))
   \<and> (files fs (key_file self) = Some t \<and> decrypt c (key_encryption_key self) t = Inl e
      \<longrightarrow> load_api_key c (self, fs) = (Inr None, self, fs))"
proof (intro conjI impI)
  show "get_or_create_encryption_key c rnd fs = (Inl (PyExn OSError m), fs)"
    if h: "files fs (key_path_of fs) = None \<and> refuses fs OpWrite (key_path_of fs) = Some m"
  proof (cases "stat_error fs (key_path_of fs)")
    case None
    then show ?thesis using h
      by (simp add: get_or_create_encryption_key_def Let_def Path_exists_ok write_bytes_def)
  next
    case (Some m')
    then have "m' = m" using h stat_error_Some [OF Some] by simp
    then show ?thesis using Some
      by (simp add: get_or_create_encryption_key_def Let_def Path_exists_raises)
  qed
  show "get_or_create_encryption_key c rnd fs = (Inl (PyExn OSError m), fs)"
    if h: "files fs (key_path_of fs) = Some k \<and> refuses fs OpRead (key_path_of fs) = Some m"
  proof (cases "stat_error fs (key_path_of fs)")
    case None
    then show ?thesis using h
      by (simp add: get_or_create_encryption_key_def Let_def Path_exists_ok read_bytes_def)
  next
    case (Some m')
    then have "m' = m" using h stat_error_Some [OF Some] by simp
    then show ?thesis using Some
      by (simp add: get_or_create_encryption_key_def Let_def Path_exists_raises)
  qed
  show "save_api_key c rnd s (self, fs) = (Inl (PyExn OSError m), self, fs)"
    if "str_encode s = Inr d \<and> refuses fs OpWrite (key_file self) = Some m"
    using that by (simp add: save_api_key_def write_bytes_def)
  show "load_api_key c (self, fs) = (Inr None, self, fs)"
    if "refuses fs OpRead (key_file self) = Some m"
    using that
    by (simp add: load_api_key_def load_api_key_try_def Path_exists_def read_bytes_def
          split: option.splits sum.splits)
  show "load_api_key c (self, fs) = (Inr None, self, fs)"
    if "files fs (key_file self) = Some t \<and> decrypt c (key_encryption_key self) t = Inl e"
    using that
    by (simp add: load_api_key_def load_api_key_try_def Path_exists_def path_exists_def
          read_bytes_def split: option.splits sum.splits)
qed

theorem storage_errors_surface_except_in_load_witness:
  "files readonly_disk (key_path_of readonly_disk) = None
   \<and> refuses readonly_disk OpWrite (key_path_of readonly_disk) = Some ''Read-only file system''
   \<and> get_or_create_encryption_key demo_cipher [] readonly_disk
       = (Inl (PyExn OSError ''Read-only file system''), readonly_disk)
   \<and> files locked_disk (key_path_of locked_disk) = Some demo_key
   \<and> refuses locked_disk OpRead (key_path_of locked_disk) = Some ''Permission denied''
   \<and> get_or_create_encryption_key demo_cipher [] locked_disk
       = (Inl (PyExn OSError ''Permission denied''), locked_disk)
   \<and> str_encode [0x73, 0x6B] = Inr [0x73, 0x6B]
   \<and> refuses readonly_disk OpWrite (key_file demo_manager) = Some ''Read-only file system''
   \<and> save_api_key demo_cipher [] [0x73, 0x6B] (demo_manager, readonly_disk)
       = (Inl (PyExn OSError ''Read-only file system''), demo_manager, readonly_disk)
   \<and> refuses locked_disk OpRead (key_file demo_manager) = Some ''Permission denied''
   \<and> load_api_key demo_cipher (demo_manager, locked_disk) = (Inr None, demo_manager, locked_disk)
   \<and> files garbage_disk (key_file demo_manager) = Some [0x41]
   \<and> decrypt demo_cipher (key_encryption_key demo_manager) [0x41] = Inl (PyExn InvalidToken [])
   \<and> load_api_key demo_cipher (demo_manager, garbage_disk)
       = (Inr None, demo_manager, garbage_disk)"
proof -
  have a: "files readonly_disk (key_path_of readonly_disk) = None"
    and w: "refuses readonly_disk OpWrite (key_path_of readonly_disk) = Some ''Read-only file system''"
    and w': "refuses readonly_disk OpWrite (key_file demo_manager) = Some ''Read-only file system''"
    and r: "refuses locked_disk OpRead (key_file demo_manager) = Some ''Permission denied''"
    and kf: "files locked_disk (key_path_of locked_disk) = Some demo_key"
    and kr: "refuses locked_disk OpRead (key_path_of locked_disk) = Some ''Permission denied''"
    and g: "files garbage_disk (key_file demo_manager) = Some [0x41]"
    by (simp_all add: readonly_disk_def locked_disk_def garbage_disk_def key_path_of_def
          demo_manager_def)
  have gd: "decrypt demo_cipher (key_encryption_key demo_manager) [0x41]
              = Inl (PyExn InvalidToken [])"
    using demo_decrypt_garbage by (simp add: demo_manager_def)
  have e: "str_encode [0x73, 0x6B] = Inr [0x73, 0x6B]"
    by (simp add: encode_cp_def)
  note inst = storage_errors_surface_except_in_load
                [where c = demo_cipher and rnd = "[]" and self = demo_manager]
  have 1: "get_or_create_encryption_key demo_cipher [] readonly_disk
       = (Inl (PyExn OSError ''Read-only file system''), readonly_disk)"
    using inst [where fs = readonly_disk and m = "''Read-only file system''"] a w by blast
  have 2: "get_or_create_encryption_key demo_cipher [] locked_disk
       = (Inl (PyExn OSError ''Permission denied''), locked_disk)"
    using inst [where fs = locked_disk and m = "''Permission denied''" and k = demo_key] kf kr
    by blast
  have 3: "save_api_key demo_cipher [] [0x73, 0x6B] (demo_manager, readonly_disk)
       = (Inl (PyExn OSError ''Read-only file system''), demo_manager, readonly_disk)"
    using inst [where fs = readonly_disk and m = "''Read-only file system''"
                  and s = "[0x73, 0x6B]" and d = "[0x73, 0x6B]"] e w'
    by blast
  have 4: "load_api_key demo_cipher (demo_manager, locked_disk)
             = (Inr None, demo_manager, locked_disk)"
    using inst [where fs = locked_disk and m = "''Permission denied''"] r by blast
  have 5: "load_api_key demo_cipher (demo_manager, garbage_disk)
       = (Inr None, demo_manager, garbage_disk)"
    using inst [where fs = garbage_disk and t = "[0x41]" and e = "PyExn InvalidToken []"] g gd
    by blast
  show ?thesis using a w w' r kf kr g gd e 1 2 3 4 5 by (intro conjI)
qed

text \<open>
  C4 as it is stated fails: the credential file exists and the operating system refuses
  to read it, and \<open>load_api_key\<close> returns \<open>None\<close> where the claim has it raise the
  storage error.
\<close>

theorem load_api_key_storage_error_counterexample:
  "path_exists locked_disk (key_file demo_manager)
   \<and> read_bytes locked_disk (key_file demo_manager) = Inl (PyExn OSError ''Permission denied'')
   \<and> fst (load_api_key demo_cipher (demo_manager, locked_disk)) = Inr None
   \<and> fst (load_api_key demo_cipher (demo_manager, locked_disk))
       \<noteq> Inl (PyExn OSError ''Permission denied'')"
  by (simp add: load_api_key_def load_api_key_try_def Path_exists_def stat_error_def
        path_exists_def read_bytes_def locked_disk_def demo_manager_def)




text \<open>
  The constructor sets \<open>key_file\<close> to \<open>.calculator_api_key\<close> in the home directory, and
  the key that the object holds is the one the cipher accepted.
\<close>

lemma APIKeyManager_init_result:
  assumes "APIKeyManager_init c rnd fs = (Inr self, fs')"
  shows "key_file self = home fs' @ [''.calculator_api_key'']"
    and "home fs' = home fs"
    and "new_fernet c (key_encryption_key self) = None"
    and "files fs' (key_path_of fs') = Some (key_encryption_key self)"
  using assms
  by (auto simp: APIKeyManager_init_def Let_def get_or_create_encryption_key_def
        Path_exists_def path_exists_def stat_error_None write_bytes_def read_bytes_def
        key_path_of_def
      split: prod.splits sum.splits option.splits if_splits)

text \<open>
  A second object built on the disk that the first constructor left is the same object,
  when the key file can be read: the dialog and the application hold the same key.
\<close>

lemma APIKeyManager_init_again:
  assumes "APIKeyManager_init c rnd fs = (Inr self, fs1)"
    and "refuses fs OpRead (key_path_of fs) = None"
  shows "APIKeyManager_init c rnd2 fs1 = (Inr self, fs1)"
  using assms
  by (auto simp: APIKeyManager_init_def Let_def get_or_create_encryption_key_def
        Path_exists_def path_exists_def stat_error_None write_bytes_def read_bytes_def
        key_path_of_def
      split: prod.splits sum.splits option.splits if_splits)

text \<open>
  So is an object built after a save: the dialog saves with its own object, and the
  application that starts next builds the object that decrypts what was saved.
\<close>

lemma APIKeyManager_init_after_save:
  assumes i: "APIKeyManager_init c rnd fs = (Inr self, fs1)"
    and r: "refuses fs OpRead (key_path_of fs) = None"
    and s: "save_api_key c rnd1 s (self, fs1) = (Inr (), self', fs2)"
  shows "APIKeyManager_init c rnd2 fs2 = (Inr self, fs2)"
proof -
  note a = APIKeyManager_init_result [OF i]
  from save_api_key_result [OF s] obtain d where
    fs2: "fs2 = fs1\<lparr>files := (files fs1)(key_file self \<mapsto>
                      encrypt c (key_encryption_key self) rnd1 d)\<rparr>"
    by blast
  have ne: "key_file self \<noteq> key_path_of fs1"
    using a(1) by (simp add: key_path_of_def)
  have kp: "key_path_of fs2 = key_path_of fs1" "home fs2 = home fs1"
    by (simp_all add: fs2 key_path_of_def)
  have f: "files fs2 (key_path_of fs2) = Some (key_encryption_key self)"
    using a(4) ne by (simp add: fs2 key_path_of_def)
  have rr: "refuses fs1 = refuses fs"
    using i
    by (auto simp: APIKeyManager_init_def Let_def get_or_create_encryption_key_def
          write_bytes_def split: prod.splits sum.splits option.splits if_splits)
  have r2: "refuses fs2 OpRead (key_path_of fs2) = None"
    using r rr a(2) by (simp add: fs2 key_path_of_def)
  have s2: "stat_error fs2 (key_path_of fs1) = None"
    using r2 kp by (simp add: stat_error_None)
  show ?thesis
    using f r2 a(1,3) kp
    by (cases self)
       (simp add: APIKeyManager_init_def Let_def get_or_create_encryption_key_def
          Path_exists_ok s2 read_bytes_def)
qed

text \<open>
  C10. For an object as the constructor makes it, the credential file is not the key
  file. \<open>save_api_key\<close> and \<open>delete_api_key\<close> return the object as it was and leave
  every file other than the credential file, the key file among them, as it was;
  \<open>load_api_key\<close> returns the object and the whole disk as they were.
\<close>

theorem credential_operations_keep_key:
  assumes "key_file self = home fs @ [''.calculator_api_key'']"
  shows "key_file self \<noteq> key_path_of fs
    \<and> fst (snd (save_api_key c rnd s (self, fs))) = self
    \<and> files (snd (snd (save_api_key c rnd s (self, fs)))) (key_path_of fs)
        = files fs (key_path_of fs)
    \<and> (p \<noteq> key_file self
        \<longrightarrow> files (snd (snd (save_api_key c rnd s (self, fs)))) p = files fs p)
    \<and> snd (load_api_key c (self, fs)) = (self, fs)
    \<and> fst (snd (delete_api_key (self, fs))) = self
    \<and> files (snd (snd (delete_api_key (self, fs)))) (key_path_of fs)
        = files fs (key_path_of fs)
    \<and> (p \<noteq> key_file self
        \<longrightarrow> files (snd (snd (delete_api_key (self, fs)))) p = files fs p)"
proof -
  have ne: "key_file self \<noteq> key_path_of fs"
    using assms by (simp add: key_path_of_def)
  have sv: "fst (snd (save_api_key c rnd s (self, fs))) = self"
    and svf: "q \<noteq> key_file self
        \<Longrightarrow> files (snd (snd (save_api_key c rnd s (self, fs)))) q = files fs q" for q
    by (auto simp: save_api_key_def Let_def write_bytes_def split: sum.splits option.splits)
  have ld: "snd (load_api_key c (self, fs)) = (self, fs)"
    by (simp add: load_api_key_def split: sum.splits)
  have dl: "fst (snd (delete_api_key (self, fs))) = self"
    and dlf: "q \<noteq> key_file self
        \<Longrightarrow> files (snd (snd (delete_api_key (self, fs)))) q = files fs q" for q
    by (auto simp: delete_api_key_def unlink_def split: option.splits sum.splits)
  show ?thesis
    using ne sv svf [of p] svf [of "key_path_of fs"] ld dl dlf [of p] dlf [of "key_path_of fs"]
    by (metis (no_types))
qed

theorem credential_operations_keep_key_witness:
  "key_file demo_manager = home fresh_disk @ [''.calculator_api_key'']
   \<and> key_file demo_manager \<noteq> key_path_of fresh_disk
   \<and> fst (snd (save_api_key demo_cipher [] [0x73] (demo_manager, fresh_disk))) = demo_manager
   \<and> files (snd (snd (save_api_key demo_cipher [] [0x73] (demo_manager, fresh_disk))))
        (key_path_of fresh_disk) = files fresh_disk (key_path_of fresh_disk)
   \<and> [''home'', ''user'', ''notes''] \<noteq> key_file demo_manager
   \<and> files (snd (snd (save_api_key demo_cipher [] [0x73] (demo_manager, fresh_disk))))
        [''home'', ''user'', ''notes''] = files fresh_disk [''home'', ''user'', ''notes'']
   \<and> snd (load_api_key demo_cipher (demo_manager, fresh_disk)) = (demo_manager, fresh_disk)
   \<and> fst (snd (delete_api_key (demo_manager, fresh_disk))) = demo_manager
   \<and> files (snd (snd (delete_api_key (demo_manager, fresh_disk)))) (key_path_of fresh_disk)
        = files fresh_disk (key_path_of fresh_disk)
   \<and> files (snd (snd (delete_api_key (demo_manager, fresh_disk))))
        [''home'', ''user'', ''notes''] = files fresh_disk [''home'', ''user'', ''notes'']"
proof -
  have k: "key_file demo_manager = home fresh_disk @ [''.calculator_api_key'']"
    by (simp add: demo_manager_def fresh_disk_def)
  have p: "[''home'', ''user'', ''notes''] \<noteq> key_file demo_manager"
    by (simp add: demo_manager_def)
  show ?thesis
    using credential_operations_keep_key
            [OF k, of demo_cipher "[]" "[0x73]" "[''home'', ''user'', ''notes'']"] k p
    by blast
qed

section \<open>The calculation client and \<open>calculate\<close>\<close>


lemma call_api_result:
  "fst (call_api F post self num1 num2 operation log)
     = (case call_api_try F post (build_request F self num1 num2 operation) of
          Inl e \<Rightarrow> Inl (PyExn Exception (''API call failed: '' @ str_exn e))
        | Inr v \<Rightarrow> Inr v)"
  by (simp add: call_api_def Let_def)

text \<open>
  The three ways in which the client fails: \<open>requests.post\<close> raises, the status is not
  200, or the number cannot be taken from the body.
\<close>

lemma call_api_try_failures:
  "(post req = Inl e \<longrightarrow> call_api_try F post req = Inl e)
   \<and> (post req = Inr response \<and> status_code response \<noteq> 200
        \<longrightarrow> call_api_try F post req
              = Inl (PyExn Exception (''API Error: '' @ str_int (status_code response))))
   \<and> (post req = Inr response \<and> status_code response = 200
        \<and> json_body response = Inr result \<and> extract_result F result = Inl e
        \<longrightarrow> call_api_try F post req = Inl e)"
  by (simp add: call_api_try_def)

text \<open>
  C5, as the code has it. When the service answers with status 200 and the first text
  field of the first candidate is a string that \<open>float\<close> does not accept, \<open>call_api\<close>
  raises and returns no number. What it raises is an \<open>Exception\<close> whose text is
  \<open>API call failed: \<close> followed by the text of the \<open>ValueError\<close> of \<open>float\<close>; every
  exception that \<open>call_api\<close> raises, for whatever failure, has that class.
\<close>

theorem call_api_parse_failure:
  assumes "post (build_request F self num1 num2 operation) = Inr response"
    and "status_code response = 200"
    and "json_body response = Inr result"
    and "first_text result = Inr (JStr txt)"
    and "float_of_str F txt = Inl m"
  shows "fst (call_api F post self num1 num2 operation log)
           = Inl (PyExn Exception (''API call failed: '' @ m))
         \<and> (\<forall>x. fst (call_api F post self num1 num2 operation log) \<noteq> Inr x)
         \<and> (fst (call_api F post' self' num1' num2' operation' log') = Inl e
              \<longrightarrow> cls e = Exception)"
proof -
  have "extract_result F result = Inl (PyExn ValueError m)"
    using assms(4,5) by (simp add: extract_result_def exn_bind_def)
  then have "call_api_try F post (build_request F self num1 num2 operation)
               = Inl (PyExn ValueError m)"
    using assms(1-3) by (simp add: call_api_try_def)
  then have "fst (call_api F post self num1 num2 operation log)
           = Inl (PyExn Exception (''API call failed: '' @ m))"
    by (simp add: call_api_result)
  moreover have "cls e = Exception"
    if "fst (call_api F post' self' num1' num2' operation' log') = Inl e"
    using that by (auto simp: call_api_result split: sum.splits)
  ultimately show ?thesis by simp
qed

lemma first_text_answer:
  "json_body r = Inr (JObj [(''candidates'',
      JArr [JObj [(''content'', JObj [(''parts'', JArr [JObj [(''text'', JStr txt)]])])]])])
   \<Longrightarrow> \<exists>result. json_body r = Inr result \<and> first_text result = Inr (JStr txt)"
  by (simp add: first_text_def exn_bind_def)

theorem call_api_parse_failure_witness:
  "float_of_str demo_floats ''approximately four''
     = Inl (''could not convert string to float: '' @ quoted ''approximately four'')
   \<and> fst (call_api demo_floats (answer_with ''approximately four'') (CalculatorAPI_init [0x6B])
            2 2 ''+'' [])
       = Inl (PyExn Exception (''API call failed: could not convert string to float: ''
                @ quoted ''approximately four''))
   \<and> fst (call_api demo_floats unreachable (CalculatorAPI_init [0x6B]) 2 2 ''+'' [])
       = Inl (PyExn Exception ''API call failed: Connection refused'')
   \<and> cls (PyExn Exception ''API call failed: Connection refused'') = Exception"
proof -
  let ?req = "build_request demo_floats (CalculatorAPI_init [0x6B]) (2::int) 2 ''+''"
  let ?resp = "\<lparr>status_code = 200,
          json_body = Inr (JObj [(''candidates'',
            JArr [JObj [(''content'', JObj [(''parts'',
              JArr [JObj [(''text'', JStr ''approximately four'')]])])]])])\<rparr> :: int response"
  have p: "answer_with ''approximately four'' ?req = Inr ?resp"
    by (simp add: answer_with_def)
  have s: "status_code ?resp = 200" by simp
  obtain result where j: "json_body ?resp = Inr result"
    and t: "first_text result = Inr (JStr ''approximately four'')"
    using first_text_answer [of ?resp "''approximately four''"] by auto
  have f: "float_of_str demo_floats ''approximately four''
     = Inl (''could not convert string to float: '' @ quoted ''approximately four'')"
    by (simp add: demo_floats_def whole_of_str_def)
  have u: "fst (call_api demo_floats unreachable (CalculatorAPI_init [0x6B]) 2 2 ''+'' [])
       = Inl (PyExn Exception ''API call failed: Connection refused'')"
    by (simp add: call_api_result call_api_try_def unreachable_def)
  show ?thesis
    using call_api_parse_failure
            [where post = "answer_with ''approximately four''" and F = demo_floats
               and self = "CalculatorAPI_init [0x6B]" and ?num1.0 = 2 and ?num2.0 = 2
               and operation = "''+''" and log = "[]"
               and post' = unreachable and self' = "CalculatorAPI_init [0x6B]"
               and num1' = 2 and num2' = 2 and operation' = "''+''" and log' = "[]"
               and e = "PyExn Exception ''API call failed: Connection refused''",
             OF p s j t f] f u
    by simp
qed

text \<open>
  C5 as it is stated fails: the error of a text that is no number is not a distinct
  error. It has the class of the error of a network failure, and a network failure whose
  text is the text of the \<open>ValueError\<close> raises the very same exception.
\<close>

theorem call_api_parse_failure_not_distinct_counterexample:
  "fst (call_api demo_floats (answer_with ''approximately four'') (CalculatorAPI_init [0x6B])
          2 2 ''+'' [])
     = Inl (PyExn Exception (''API call failed: could not convert string to float: ''
              @ quoted ''approximately four''))
   \<and> fst (call_api demo_floats
            (fail_with (''could not convert string to float: '' @ quoted ''approximately four''))
            (CalculatorAPI_init [0x6B]) 2 2 ''+'' [])
     = fst (call_api demo_floats (answer_with ''approximately four'') (CalculatorAPI_init [0x6B])
          2 2 ''+'' [])
   \<and> map_sum cls id
        (fst (call_api demo_floats (answer_with ''approximately four'')
                (CalculatorAPI_init [0x6B]) 2 2 ''+'' []))
     = Inl Exception
   \<and> map_sum cls id
        (fst (call_api demo_floats unreachable (CalculatorAPI_init [0x6B]) 2 2 ''+'' []))
     = Inl Exception
   \<and> map_sum cls id
        (fst (call_api demo_floats (answer_status 500) (CalculatorAPI_init [0x6B]) 2 2 ''+'' []))
     = Inl Exception"
  by (simp add: call_api_result call_api_try_def answer_with_def fail_with_def unreachable_def
        answer_status_def extract_result_def first_text_def exn_bind_def demo_floats_def
        whole_of_str_def)

text \<open>
  C6. When the second entry is a number that equals zero and the operation is \<open>/\<close>,
  \<open>calculate\<close> hands no request to \<open>requests.post\<close>, whatever the first entry holds;
  so does a press of the button \<open>Divide\<close>. The result label and the history stay as they
  were, and with a number in the first entry the error box reads
  \<open>Cannot divide by zero\<close>.
\<close>

theorem calculate_zero_divisor_guard:
  assumes "float_of_str F (num2_entry app) = Inr num2" and "is_zero F num2"
  shows "sent (calculate F post ''/'' app) = sent app
    \<and> sent (press_button F post ''Divide'' app) = sent app
    \<and> history_text (calculate F post ''/'' app) = history_text app
    \<and> result_label (calculate F post ''/'' app) = result_label app
    \<and> (float_of_str F (num1_entry app) = Inr num1
        \<longrightarrow> errors_shown (calculate F post ''/'' app)
              = errors_shown app @ [(''Error'', ''Cannot divide by zero'')])"
proof -
  have c: "calculate F post ''/'' app =
      finally_clause (case float_of_str F (num1_entry app) of
          Inl m \<Rightarrow> handle_exn (PyExn ValueError m) app
        | Inr n1 \<Rightarrow> showerror ''Error'' ''Cannot divide by zero'' app)"
    using assms by (simp add: calculate_def split: sum.splits)
  have b: "press_button F post ''Divide'' app = calculate F post ''/'' app"
    by (simp add: press_button_def operations_def)
  show ?thesis
    unfolding b c
    by (simp add: finally_clause_def handle_exn_def showerror_def split: sum.splits)
qed

theorem calculate_zero_divisor_guard_witness:
  "float_of_str demo_floats (num2_entry (demo_app ''6'' ''0'')) = Inr 0
   \<and> is_zero demo_floats 0
   \<and> sent (calculate demo_floats (answer_with ''2'') ''/'' (demo_app ''6'' ''0'')) = []
   \<and> sent (press_button demo_floats (answer_with ''2'') ''Divide'' (demo_app ''6'' ''0'')) = []
   \<and> history_text (calculate demo_floats (answer_with ''2'') ''/'' (demo_app ''6'' ''0'')) = []
   \<and> errors_shown (calculate demo_floats (answer_with ''2'') ''/'' (demo_app ''6'' ''0''))
       = [(''Error'', ''Cannot divide by zero'')]"
proof -
  have n2: "float_of_str demo_floats (num2_entry (demo_app ''6'' ''0'')) = Inr 0"
    by (simp add: demo_floats_def demo_app_def whole_of_str_def)
  have z: "is_zero demo_floats 0" by (simp add: demo_floats_def)
  have n1: "float_of_str demo_floats (num1_entry (demo_app ''6'' ''0'')) = Inr 6"
    by (simp add: demo_floats_def demo_app_def whole_of_str_def)
  have e: "sent (demo_app ''6'' ''0'') = []" "history_text (demo_app ''6'' ''0'') = []"
    "errors_shown (demo_app ''6'' ''0'') = []"
    by (simp_all add: demo_app_def)
  show ?thesis
    using calculate_zero_divisor_guard [OF n2 z, of "answer_with ''2''" 6] n1 n2 z e
    by simp
qed



text \<open>
  A run of \<open>calculate\<close> that changes the history is one in which both entries were
  numbers and \<open>call_api\<close> returned a result.
\<close>

lemma calculate_history_changes_only_on_success:
  assumes "history_text (calculate F post operation app) \<noteq> history_text app"
  shows "\<exists>num1 num2 result.
           float_of_str F (num1_entry app) = Inr num1
         \<and> float_of_str F (num2_entry app) = Inr num2
         \<and> fst (call_api F post (api_client app) num1 num2 operation (sent app)) = Inr result"
  using assms
  by (auto simp: calculate_def Let_def finally_clause_def handle_exn_def showerror_def
        split: sum.splits prod.splits if_splits)

text \<open>
  C9. When both entries are numbers, the guard does not stop the request and \<open>call_api\<close>
  raises (a failure of the network, a status other than 200, or a body from which no
  number can be taken), \<open>calculate\<close> leaves the history, the result label, the entries
  and the client as they were: it shows the text of the exception in an error box and
  clears the loading label.
\<close>

theorem calculate_failure_keeps_state:
  assumes "float_of_str F (num1_entry app) = Inr num1"
    and "float_of_str F (num2_entry app) = Inr num2"
    and "\<not> (operation = ''/'' \<and> is_zero F num2)"
    and "fst (call_api F post (api_client app) num1 num2 operation (sent app)) = Inl e"
  shows "history_text (calculate F post operation app) = history_text app
    \<and> result_label (calculate F post operation app) = result_label app
    \<and> num1_entry (calculate F post operation app) = num1_entry app
    \<and> num2_entry (calculate F post operation app) = num2_entry app
    \<and> api_client (calculate F post operation app) = api_client app
    \<and> loading_label (calculate F post operation app) = []
    \<and> errors_shown (calculate F post operation app)
        = errors_shown app @ [(''Error'', str_exn e)]"
proof -
  have c: "cls e = Exception"
    using assms(4) by (auto simp: call_api_result split: sum.splits)
  obtain log where r: "call_api F post (api_client app) num1 num2 operation (sent app) = (Inl e, log)"
    using assms(4) by (cases "call_api F post (api_client app) num1 num2 operation (sent app)") auto
  have "calculate F post operation app
          = finally_clause (handle_exn e (app\<lparr>loading_label := ''Calculating...'', sent := log\<rparr>))"
    using assms(1-3) r by (auto simp: calculate_def Let_def)
  then show ?thesis
    by (simp add: finally_clause_def handle_exn_def showerror_def c)
qed

theorem calculate_failure_keeps_state_witness:
  "float_of_str demo_floats (num1_entry (demo_app ''6'' ''3'')) = Inr 6
   \<and> float_of_str demo_floats (num2_entry (demo_app ''6'' ''3'')) = Inr 3
   \<and> \<not> (''/'' = ''/'' \<and> is_zero demo_floats 3)
   \<and> fst (call_api demo_floats unreachable (api_client (demo_app ''6'' ''3'')) 6 3 ''/''
            (sent (demo_app ''6'' ''3'')))
       = Inl (PyExn Exception ''API call failed: Connection refused'')
   \<and> history_text (calculate demo_floats unreachable ''/'' (demo_app ''6'' ''3'')) = []
   \<and> result_label (calculate demo_floats unreachable ''/'' (demo_app ''6'' ''3''))
       = ''Result will appear here''
   \<and> errors_shown (calculate demo_floats unreachable ''/'' (demo_app ''6'' ''3''))
       = [(''Error'', ''API call failed: Connection refused'')]"
proof -
  have n1: "float_of_str demo_floats (num1_entry (demo_app ''6'' ''3'')) = Inr 6"
    and n2: "float_of_str demo_floats (num2_entry (demo_app ''6'' ''3'')) = Inr 3"
    by (simp_all add: demo_floats_def demo_app_def whole_of_str_def)
  have z: "\<not> (''/'' = ''/'' \<and> is_zero demo_floats 3)" by (simp add: demo_floats_def)
  have f: "fst (call_api demo_floats unreachable (api_client (demo_app ''6'' ''3'')) 6 3 ''/''
            (sent (demo_app ''6'' ''3'')))
       = Inl (PyExn Exception ''API call failed: Connection refused'')"
    by (simp add: call_api_result call_api_try_def unreachable_def)
  have e: "history_text (demo_app ''6'' ''3'') = []"
    "result_label (demo_app ''6'' ''3'') = ''Result will appear here''"
    "errors_shown (demo_app ''6'' ''3'') = []"
    by (simp_all add: demo_app_def)
  show ?thesis
    using calculate_failure_keeps_state [OF n1 n2 z f] n1 n2 z f e by simp
qed

end
